theory Spec2Isabelle
  imports Complex_Main
begin

section \<open>JavaScript numbers\<close>

text \<open>
  The program is \<^verbatim>\<open>src/index.js\<close>. Its strings are modelled as \<^typ>\<open>string\<close> and
  the libraries it calls (fs-extra, glob, sharp, path) as parameters of the model.

  A JavaScript number is an IEEE 754 double: \<^verbatim>\<open>NaN\<close>, one of the two infinities
  (\<open>Infinity True\<close> is the positive one) or a finite value, held as the real number it
  denotes. The two zeros are not told apart: the program divides by the constants 5 and
  1.2 and by \<^verbatim>\<open>textLength * 0.6\<close>, which is never negative, and no other of its
  operations depends on the sign of a zero.
\<close>

datatype number = NaN | Infinity bool | Finite real

text \<open>The number of binary digits of a positive integer.\<close>

function bitLength :: "int \<Rightarrow> int" where
  "bitLength n = (if n \<le> 0 then 0 else 1 + bitLength (n div 2))"
  by pat_completeness auto

termination
  by (relation "measure nat") auto

declare bitLength.simps [simp del]

text \<open>The binary exponent \<open>e\<close> of a positive real \<open>a\<close>: \<open>2 ^ e \<le> a < 2 ^ (e + 1)\<close>.\<close>

definition exponent :: "real \<Rightarrow> int" where
  "exponent a =
     (if 1 \<le> a then bitLength \<lfloor>a\<rfloor> - 1 else - bitLength (\<lceil>1 / a\<rceil> - 1))"

definition pow2 :: "int \<Rightarrow> real" where
  "pow2 k = (if 0 \<le> k then 2 ^ nat k else 1 / 2 ^ nat (- k))"

text \<open>Rounding to the nearest integer, a tie to the even one.\<close>

definition roundEven :: "real \<Rightarrow> int" where
  "roundEven q =
     (let n = \<lfloor>q\<rfloor>; r = q - of_int n
      in if r < 1 / 2 then n else if 1 / 2 < r then n + 1 else if even n then n else n + 1)"

text \<open>
  The double that an exact result is rounded to (binary64, round to nearest, ties to
  even): 53 significant bits, the smallest exponent -1022 (below it the spacing stays
  \<open>2 ^ -1074\<close>), and infinity when the rounded value reaches \<open>2 ^ 1024\<close>.
\<close>

definition fl :: "real \<Rightarrow> number" where
  "fl x =
     (if x = 0 then Finite 0
      else
        (let a = \<bar>x\<bar>;
             e = max (exponent a) (- 1022);
             u = pow2 (e - 52);
             y = of_int (roundEven (a / u)) * u
         in if 1024 \<le> exponent y then Infinity (0 < x)
            else Finite (if 0 < x then y else - y)))"

text \<open>
  The value of a decimal literal of the source, and of \<^verbatim>\<open>parseFloat\<close> on a decimal
  string: the double nearest to it.
\<close>

definition decimal :: "real \<Rightarrow> number" where
  "decimal x = fl x"

text \<open>The operators \<^verbatim>\<open>*\<close> and \<^verbatim>\<open>/\<close>.\<close>

fun mul :: "number \<Rightarrow> number \<Rightarrow> number" where
  "mul NaN y = NaN"
| "mul x NaN = NaN"
| "mul (Finite a) (Finite b) = fl (a * b)"
| "mul (Finite a) (Infinity t) = (if a = 0 then NaN else Infinity (t = (0 < a)))"
| "mul (Infinity s) (Finite b) = (if b = 0 then NaN else Infinity (s = (0 < b)))"
| "mul (Infinity s) (Infinity t) = Infinity (s = t)"

fun quot :: "number \<Rightarrow> number \<Rightarrow> number" where
  "quot NaN y = NaN"
| "quot x NaN = NaN"
| "quot (Finite a) (Finite b) =
     (if b = 0 then (if a = 0 then NaN else Infinity (0 < a)) else fl (a / b))"
| "quot (Finite a) (Infinity t) = Finite 0"
| "quot (Infinity s) (Finite b) = Infinity (s = (0 \<le> b))"
| "quot (Infinity s) (Infinity t) = NaN"

text \<open>
  \<^verbatim>\<open>Math.max\<close> and \<^verbatim>\<open>Math.min\<close> of two arguments (\<^verbatim>\<open>NaN\<close> when one of them
  is), \<^verbatim>\<open>Math.floor\<close>, and \<^verbatim>\<open>Math.round\<close>, which rounds to the nearest integer,
  a tie upwards.
\<close>

fun mathMax :: "number \<Rightarrow> number \<Rightarrow> number" where
  "mathMax NaN y = NaN"
| "mathMax x NaN = NaN"
| "mathMax (Finite a) (Finite b) = Finite (max a b)"
| "mathMax (Finite a) (Infinity t) = (if t then Infinity True else Finite a)"
| "mathMax (Infinity s) y = (if s then Infinity True else y)"

fun mathMin :: "number \<Rightarrow> number \<Rightarrow> number" where
  "mathMin NaN y = NaN"
| "mathMin x NaN = NaN"
| "mathMin (Finite a) (Finite b) = Finite (min a b)"
| "mathMin (Finite a) (Infinity t) = (if t then Finite a else Infinity False)"
| "mathMin (Infinity s) y = (if s then y else Infinity False)"

fun mathFloor :: "number \<Rightarrow> number" where
  "mathFloor NaN = NaN"
| "mathFloor (Infinity s) = Infinity s"
| "mathFloor (Finite x) = Finite (of_int \<lfloor>x\<rfloor>)"

fun mathRound :: "number \<Rightarrow> number" where
  "mathRound NaN = NaN"
| "mathRound (Infinity s) = Infinity s"
| "mathRound (Finite x) = Finite (of_int \<lfloor>x + 1 / 2\<rfloor>)"

text \<open>
  A length or a pixel count as a number. Those of the program are below \<open>2 ^ 53\<close> and so
  are doubles as they are.
\<close>

definition ofNat :: "nat \<Rightarrow> number" where
  "ofNat n = Finite (real n)"

section \<open>The watermarker: configuration\<close>

text \<open>
  The command line, as parsed by commander (\<^verbatim>\<open>program.opts()\<close>, lines 10-24).
  \<^verbatim>\<open>--watermark\<close> and \<^verbatim>\<open>--text\<close> have no default and are
  \<^verbatim>\<open>undefined\<close> (\<open>None\<close>) when absent. \<open>opt_opacity\<close> and \<open>opt_scale\<close>
  hold the value of \<^verbatim>\<open>parseFloat\<close> on the option string, where the source
  parses it at each use: \<^verbatim>\<open>NaN\<close> for a string that is not a number.
\<close>

type_synonym path = string
type_synonym err = string

record options =
  opt_input :: path
  opt_output :: path
  opt_watermark :: "path option"
  opt_text :: "string option"
  opt_position :: string
  opt_opacity :: number
  opt_scale :: number
  opt_filter :: string

text \<open>
  JavaScript truthiness of an optional string, as in \<^verbatim>\<open>!options.watermark\<close> and
  \<^verbatim>\<open>if (options.text)\<close>: \<^verbatim>\<open>undefined\<close> and the empty string are falsy.
\<close>

fun truthy :: "string option \<Rightarrow> bool" where
  "truthy None = False"
| "truthy (Some s) = (s \<noteq> [])"

section \<open>Placement (lines 42-58)\<close>

text \<open>
  \<^verbatim>\<open>String.prototype.toLowerCase\<close> on the ASCII letters; every other character is
  kept. That decides the same branch of the switch below: the five position names are
  ASCII, and JavaScript maps no character outside \<open>A-Z\<close> to one of their letters.
\<close>

definition lowerChar :: "char \<Rightarrow> char" where
  "lowerChar c =
     (case map_of (zip ''ABCDEFGHIJKLMNOPQRSTUVWXYZ'' ''abcdefghijklmnopqrstuvwxyz'') c of
        Some l \<Rightarrow> l
      | None \<Rightarrow> c)"

definition toLowerCase :: "string \<Rightarrow> string" where
  "toLowerCase s = map lowerChar s"

text \<open>The result \<^verbatim>\<open>{ left, top }\<close> is the pair \<open>(left, top)\<close>.\<close>

definition getPositionCoordinates ::
  "string \<Rightarrow> real \<Rightarrow> real \<Rightarrow> real \<Rightarrow> real \<Rightarrow> real \<times> real" where
  "getPositionCoordinates position imageWidth imageHeight watermarkWidth watermarkHeight =
     (let padding = 10; p = toLowerCase position in
      if p = ''topleft'' then (padding, padding)
      else if p = ''topright'' then (imageWidth - watermarkWidth - padding, padding)
      else if p = ''bottomleft'' then (padding, imageHeight - watermarkHeight - padding)
      else if p = ''bottomright'' then
        (imageWidth - watermarkWidth - padding, imageHeight - watermarkHeight - padding)
      else ((imageWidth - watermarkWidth) / 2, (imageHeight - watermarkHeight) / 2))"

section \<open>Text watermark sizing (lines 71-105)\<close>

text \<open>
  The arithmetic of \<^verbatim>\<open>createTextWatermark(width, height)\<close>, one definition for each
  variable of the source, in the order of the source. \<open>bw\<close> and \<open>bh\<close> stand for the
  values of \<^verbatim>\<open>watermarkWidth\<close> and \<^verbatim>\<open>watermarkHeight\<close>.
\<close>

definition watermarkWidth :: "number \<Rightarrow> number" where
  "watermarkWidth width = mathMax (Finite 50) width"

definition watermarkHeight :: "number \<Rightarrow> number" where
  "watermarkHeight height = mathMax (Finite 50) (mul height (decimal 0.6))"

text \<open>Line 83: \<^verbatim>\<open>Math.floor(Math.min(watermarkWidth / 5, watermarkHeight / 1.2))\<close>.\<close>

definition baseFontSize :: "number \<Rightarrow> number \<Rightarrow> number" where
  "baseFontSize bw bh = mathFloor (mathMin (quot bw (Finite 5)) (quot bh (decimal 1.2)))"

text \<open>Lines 86-90: the value of \<^verbatim>\<open>fontSize\<close> after the scaling for long text.\<close>

definition scaledFontSize :: "nat \<Rightarrow> number \<Rightarrow> number \<Rightarrow> number" where
  "scaledFontSize textLength bw bh =
     (if textLength > 8 then
        (let textScaleFactor = mathMin (Finite 1) (quot (Finite 8) (ofNat textLength))
         in mathFloor (mul (mul (baseFontSize bw bh) textScaleFactor) (decimal 1.5)))
      else baseFontSize bw bh)"

text \<open>Line 93.\<close>

definition maxFontSize :: "nat \<Rightarrow> number \<Rightarrow> number \<Rightarrow> number" where
  "maxFontSize textLength bw bh =
     mathMin (quot bw (mul (ofNat textLength) (decimal 0.6))) (mul bh (decimal 0.9))"

text \<open>Line 94: \<^verbatim>\<open>fontSize = Math.min(fontSize, maxFontSize)\<close>.\<close>

definition cappedFontSize :: "nat \<Rightarrow> number \<Rightarrow> number \<Rightarrow> number" where
  "cappedFontSize textLength bw bh =
     mathMin (scaledFontSize textLength bw bh) (maxFontSize textLength bw bh)"

text \<open>Line 97: \<^verbatim>\<open>fontSize = Math.max(12, fontSize)\<close>.\<close>

definition fontSize :: "nat \<Rightarrow> number \<Rightarrow> number \<Rightarrow> number" where
  "fontSize textLength bw bh = mathMax (Finite 12) (cappedFontSize textLength bw bh)"

text \<open>Lines 101 and 103.\<close>

definition svgWidth :: "nat \<Rightarrow> number \<Rightarrow> number \<Rightarrow> number" where
  "svgWidth textLength bw bh =
     mathMax bw (mul (mul (fontSize textLength bw bh) (ofNat textLength)) (decimal 0.7))"

definition svgHeight :: "nat \<Rightarrow> number \<Rightarrow> number \<Rightarrow> number" where
  "svgHeight textLength bw bh =
     mathMax (mathMin bh (mul (fontSize textLength bw bh) (decimal 1.3)))
       (mul (fontSize textLength bw bh) (decimal 1.2))"

text \<open>
  The SVG document of lines 107-120, by the four values the template interpolates; the
  rest of the markup is constant.
\<close>

record svg =
  svg_width :: number
  svg_height :: number
  svg_fontSize :: number
  svg_content :: string

definition svgText :: "string \<Rightarrow> number \<Rightarrow> number \<Rightarrow> svg" where
  "svgText txt width height =
     (let textLength = length txt;
          bw = watermarkWidth width;
          bh = watermarkHeight height
      in \<lparr> svg_width = mathRound (svgWidth textLength bw bh),
           svg_height = mathRound (svgHeight textLength bw bh),
           svg_fontSize = fontSize textLength bw bh,
           svg_content = txt \<rparr>)"

section \<open>The libraries and the trace of a run\<close>

text \<open>
  What a file system call returns for a file (\<^verbatim>\<open>fs.stat\<close>) and what sharp reports
  about an image (\<^verbatim>\<open>metadata()\<close>): \<^verbatim>\<open>width\<close> and \<^verbatim>\<open>height\<close>, here
  \<open>md_width\<close> and \<open>md_height\<close>, may be \<^verbatim>\<open>undefined\<close>. A buffer is a
  sequence of bytes.
\<close>

record stats =
  isFile :: bool
  fsize :: nat

record metadata =
  md_width :: "nat option"
  md_height :: "nat option"

type_synonym buffer = "nat list"

text \<open>The console messages, one constructor for each call site of the source.\<close>

datatype msg =
    InputMissing path
  | NeitherProvided
  | TextInfo string nat number number number
  | ErrCreatingSvg err
  | SvgContent svg
  | Processing string
  | CannotAccess path err
  | NotAFile path
  | IsEmpty path
  | ErrReadingMetadata string err
  | InvalidDimensions string
  | ImageDimensions nat nat
  | ErrCreatingTextWatermark err
  | ErrLoadingWatermark err
  | ErrWatermarkMetadata err
  | SuccessfullyProcessed string
  | ErrApplying string err
  | ErrProcessing string err
  | Searching path
  | OutputDirectory path
  | NoImagesFound
  | Found nat
  | Done nat
  | TopLevelError err

text \<open>
  The observable events of a run, in order: \<^verbatim>\<open>console.log\<close>,
  \<^verbatim>\<open>console.error\<close>, an exception that nothing catches, and every library call
  with its arguments and its outcome. A call that throws has the outcome \<open>Some e\<close> or
  \<open>Inl e\<close>, with \<open>e\<close> the message of the exception.
\<close>

datatype event =
    Log msg
  | Err msg
  | Uncaught err
  | ExistsSync path bool
  | EnsureDirSync path "err option"
  | Glob string path "err + path list"
  | Access path "err option"
  | Stat path "err + stats"
  | Metadata path "err + metadata"
  | SvgToPng svg "err + buffer"
  | ResizeWatermark "path option" number "err + buffer"
  | BufferMetadata buffer "err + nat \<times> nat"
  | CompositeToFile path buffer int int number path "err option"

text \<open>
  The libraries are parameters of the model. Each call reads the state of the world
  \<open>'w\<close> (the file system) and returns its outcome with the new state, so that a call
  may fail or succeed at any point of a run:
  \<^item> \<open>fs_existsSync\<close>, \<open>fs_ensureDirSync\<close>, \<open>fs_access\<close> (with \<^verbatim>\<open>R_OK\<close>),
    \<open>fs_stat\<close>: fs-extra;
  \<^item> \<open>glob_files pattern cwd\<close>: \<^verbatim>\<open>glob(pattern, { cwd, absolute: true })\<close>;
  \<^item> \<open>sharp_metadata file\<close>: \<^verbatim>\<open>sharp(file).metadata()\<close>;
  \<^item> \<open>sharp_svg_png svg\<close>: \<^verbatim>\<open>sharp(Buffer.from(svgText)).png().toBuffer()\<close>;
  \<^item> \<open>sharp_resize file w\<close>:
    \<^verbatim>\<open>sharp(file).resize({ width: w, fit: 'inside' }).ensureAlpha().toBuffer()\<close>;
  \<^item> \<open>sharp_buffer_metadata buf\<close>: \<^verbatim>\<open>sharp(buf).metadata()\<close> on the watermark
    buffer, whose width and height are taken to be defined when the call succeeds;
  \<^item> \<open>sharp_composite file buf left top opacity out\<close>:
    \<^verbatim>\<open>sharp(file).composite([{ input: buf, left, top, blend: 'over', opacity }]).toFile(out)\<close>;
  \<^item> \<open>path_basename\<close>, \<open>path_join\<close>: the pure functions of \<^verbatim>\<open>path\<close>.
\<close>

record 'w env =
  fs_existsSync :: "path \<Rightarrow> 'w \<Rightarrow> bool"
  fs_ensureDirSync :: "path \<Rightarrow> 'w \<Rightarrow> err option \<times> 'w"
  fs_access :: "path \<Rightarrow> 'w \<Rightarrow> err option \<times> 'w"
  fs_stat :: "path \<Rightarrow> 'w \<Rightarrow> (err + stats) \<times> 'w"
  glob_files :: "string \<Rightarrow> path \<Rightarrow> 'w \<Rightarrow> (err + path list) \<times> 'w"
  sharp_metadata :: "path \<Rightarrow> 'w \<Rightarrow> (err + metadata) \<times> 'w"
  sharp_svg_png :: "svg \<Rightarrow> 'w \<Rightarrow> (err + buffer) \<times> 'w"
  sharp_resize :: "path option \<Rightarrow> number \<Rightarrow> 'w \<Rightarrow> (err + buffer) \<times> 'w"
  sharp_buffer_metadata :: "buffer \<Rightarrow> 'w \<Rightarrow> (err + nat \<times> nat) \<times> 'w"
  sharp_composite ::
    "path \<Rightarrow> buffer \<Rightarrow> int \<Rightarrow> int \<Rightarrow> number \<Rightarrow> path \<Rightarrow> 'w \<Rightarrow> err option \<times> 'w"
  path_basename :: "path \<Rightarrow> string"
  path_join :: "path \<Rightarrow> string \<Rightarrow> path"

section \<open>Startup (lines 26-39)\<close>

text \<open>
  The statements of the module's top level before \<^verbatim>\<open>main()\<close>, in the order of the
  source. The result is \<open>Some code\<close> when the process exits there and \<open>None\<close> when it
  goes on to \<^verbatim>\<open>main()\<close>. An exception of \<^verbatim>\<open>ensureDirSync\<close> is caught by
  nothing: Node prints it and exits with status 1.
\<close>

definition startup :: "'w env \<Rightarrow> options \<Rightarrow> 'w \<Rightarrow> nat option \<times> event list \<times> 'w" where
  "startup env options w0 =
     (let found = fs_existsSync env (opt_input options) w0;
          t0 = [ExistsSync (opt_input options) found]
      in if \<not> found then (Some 1, t0 @ [Err (InputMissing (opt_input options))], w0)
         else
           (let (r, w1) = fs_ensureDirSync env (opt_output options) w0;
                t1 = t0 @ [EnsureDirSync (opt_output options) r]
            in case r of
                 Some e \<Rightarrow> (Some 1, t1 @ [Uncaught e], w1)
               | None \<Rightarrow>
                   if \<not> truthy (opt_watermark options) \<and> \<not> truthy (opt_text options)
                   then (Some 1, t1 @ [Err NeitherProvided], w1)
                   else (None, t1, w1)))"

section \<open>The text watermark (lines 71-134)\<close>

text \<open>
  The result is the buffer, or the exception the function throws. Reading
  \<^verbatim>\<open>options.text.length\<close> of an absent text throws a TypeError.
\<close>

definition createTextWatermark ::
  "'w env \<Rightarrow> options \<Rightarrow> number \<Rightarrow> number \<Rightarrow> 'w \<Rightarrow> (err + buffer) \<times> event list \<times> 'w" where
  "createTextWatermark env options width height w0 =
     (case opt_text options of
        None \<Rightarrow> (Inl ''TypeError'', [], w0)
      | Some txt \<Rightarrow>
          (let doc = svgText txt width height;
               t0 = [Log (TextInfo txt (length txt) (svg_fontSize doc)
                            (svg_width doc) (svg_height doc))];
               (r, w1) = sharp_svg_png env doc w0;
               t1 = t0 @ [SvgToPng doc r]
           in case r of
                Inr watermarkBuffer \<Rightarrow> (Inr watermarkBuffer, t1, w1)
              | Inl e \<Rightarrow> (Inl e, t1 @ [Err (ErrCreatingSvg e), Log (SvgContent doc)], w1)))"

section \<open>One image (lines 137-248)\<close>

text \<open>
  \<^verbatim>\<open>!imageMetadata.width\<close>: true of \<^verbatim>\<open>undefined\<close> and of 0.
\<close>

fun missing :: "nat option \<Rightarrow> bool" where
  "missing None = True"
| "missing (Some n) = (n = 0)"

text \<open>Lines 182 and 183, of the decoded width or height of the image.\<close>

definition watermarkMax :: "options \<Rightarrow> nat \<Rightarrow> number" where
  "watermarkMax options imageSize = mathMax (Finite 50) (mul (ofNat imageSize) (opt_scale options))"

text \<open>
  Lines 185-209, the construction of the overlay for one image. The function is written
  apart from the rest of \<^verbatim>\<open>processImage\<close> to keep the definitions short. The
  result is \<open>None\<close> where the source logs the error and returns from
  \<^verbatim>\<open>processImage\<close>.
\<close>

definition buildWatermark ::
  "'w env \<Rightarrow> options \<Rightarrow> number \<Rightarrow> number \<Rightarrow> 'w \<Rightarrow> buffer option \<times> event list \<times> 'w" where
  "buildWatermark env options watermarkMaxWidth watermarkMaxHeight w0 =
     (if truthy (opt_text options) then
        (case createTextWatermark env options watermarkMaxWidth watermarkMaxHeight w0 of
           (Inr watermarkBuffer, t, w1) \<Rightarrow> (Some watermarkBuffer, t, w1)
         | (Inl e, t, w1) \<Rightarrow> (None, t @ [Err (ErrCreatingTextWatermark e)], w1))
      else
        (let (r, w1) = sharp_resize env (opt_watermark options)
                         (mathFloor watermarkMaxWidth) w0;
             t = [ResizeWatermark (opt_watermark options) (mathFloor watermarkMaxWidth) r]
         in case r of
              Inr watermarkBuffer \<Rightarrow> (Some watermarkBuffer, t, w1)
            | Inl e \<Rightarrow> (None, t @ [Err (ErrLoadingWatermark e)], w1)))"

text \<open>
  Lines 211-244: the dimensions of the overlay, its position and the composite. Every
  exception is caught and logged there.
\<close>

definition applyWatermark ::
  "'w env \<Rightarrow> options \<Rightarrow> path \<Rightarrow> string \<Rightarrow> path \<Rightarrow> nat \<Rightarrow> nat \<Rightarrow> buffer \<Rightarrow> 'w
     \<Rightarrow> event list \<times> 'w" where
  "applyWatermark env options inputFile filename outputFile imageWidth imageHeight
       watermarkBuffer w0 =
     (let (r1, w1) = sharp_buffer_metadata env watermarkBuffer w0;
          t1 = [BufferMetadata watermarkBuffer r1]
      in case r1 of
           Inl e \<Rightarrow> (t1 @ [Err (ErrWatermarkMetadata e)], w1)
         | Inr (overlayWidth, overlayHeight) \<Rightarrow>
             (let position = getPositionCoordinates (opt_position options)
                               (real imageWidth) (real imageHeight)
                               (real overlayWidth) (real overlayHeight);
                  left = \<lfloor>fst position\<rfloor>;
                  top = \<lfloor>snd position\<rfloor>;
                  (r2, w2) = sharp_composite env inputFile watermarkBuffer left top
                               (opt_opacity options) outputFile w1;
                  t2 = t1 @ [CompositeToFile inputFile watermarkBuffer left top
                               (opt_opacity options) outputFile r2]
              in case r2 of
                   None \<Rightarrow> (t2 @ [Log (SuccessfullyProcessed filename)], w2)
                 | Some e \<Rightarrow> (t2 @ [Err (ErrApplying filename e)], w2)))"

text \<open>
  The body of the outer \<^verbatim>\<open>try\<close>. The outcome is \<open>Inl e\<close> when an exception leaves
  it (only \<^verbatim>\<open>fs.stat\<close> is called outside an inner \<^verbatim>\<open>try\<close>), \<open>Inr ()\<close> when
  it returns.
\<close>

definition processImageTry ::
  "'w env \<Rightarrow> options \<Rightarrow> path \<Rightarrow> 'w \<Rightarrow> (err + unit) \<times> event list \<times> 'w" where
  "processImageTry env options inputFile w0 =
     (let filename = path_basename env inputFile;
          outputFile = path_join env (opt_output options) filename;
          t0 = [Log (Processing filename)];
          (r1, w1) = fs_access env inputFile w0;
          t1 = t0 @ [Access inputFile r1]
      in case r1 of
        Some e \<Rightarrow> (Inr (), t1 @ [Err (CannotAccess inputFile e)], w1)
      | None \<Rightarrow>
     (let (r2, w2) = fs_stat env inputFile w1;
          t2 = t1 @ [Stat inputFile r2]
      in case r2 of
        Inl e \<Rightarrow> (Inl e, t2, w2)
      | Inr st \<Rightarrow>
      if \<not> isFile st then (Inr (), t2 @ [Err (NotAFile inputFile)], w2)
      else if fsize st = 0 then (Inr (), t2 @ [Err (IsEmpty inputFile)], w2)
      else
     (let (r3, w3) = sharp_metadata env inputFile w2;
          t3 = t2 @ [Metadata inputFile r3]
      in case r3 of
        Inl e \<Rightarrow> (Inr (), t3 @ [Err (ErrReadingMetadata filename e)], w3)
      | Inr imageMetadata \<Rightarrow>
      if missing (md_width imageMetadata) \<or> missing (md_height imageMetadata)
      then (Inr (), t3 @ [Err (InvalidDimensions filename)], w3)
      else
     (let imageWidth = the (md_width imageMetadata);
          imageHeight = the (md_height imageMetadata);
          t4 = t3 @ [Log (ImageDimensions imageWidth imageHeight)];
          watermarkMaxWidth = watermarkMax options imageWidth;
          watermarkMaxHeight = watermarkMax options imageHeight
      in case buildWatermark env options watermarkMaxWidth watermarkMaxHeight w3 of
        (None, t5, w5) \<Rightarrow> (Inr (), t4 @ t5, w5)
      | (Some watermarkBuffer, t5, w5) \<Rightarrow>
          (case applyWatermark env options inputFile filename outputFile
                  imageWidth imageHeight watermarkBuffer w5 of
             (t6, w6) \<Rightarrow> (Inr (), t4 @ t5 @ t6, w6))))))"

text \<open>The outer \<^verbatim>\<open>catch\<close> (lines 245-247) logs the exception and returns.\<close>

definition processImage ::
  "'w env \<Rightarrow> options \<Rightarrow> path \<Rightarrow> 'w \<Rightarrow> (err + unit) \<times> event list \<times> 'w" where
  "processImage env options inputFile w0 =
     (case processImageTry env options inputFile w0 of
        (Inl e, t, w) \<Rightarrow>
          (Inr (), t @ [Err (ErrProcessing (path_basename env inputFile) e)], w)
      | (Inr u, t, w) \<Rightarrow> (Inr u, t, w))"

section \<open>The driver (lines 61-68 and 251-277)\<close>

text \<open>
  The loop \<^verbatim>\<open>for (const image of images) await processImage(image)\<close>: an
  exception of \<^verbatim>\<open>processImage\<close> would leave the loop.
\<close>

fun processImages ::
  "'w env \<Rightarrow> options \<Rightarrow> path list \<Rightarrow> 'w \<Rightarrow> (err + unit) \<times> event list \<times> 'w" where
  "processImages env options [] w0 = (Inr (), [], w0)"
| "processImages env options (img # images) w0 =
     (case processImage env options img w0 of
        (Inl e, t1, w1) \<Rightarrow> (Inl e, t1, w1)
      | (Inr u, t1, w1) \<Rightarrow>
          (case processImages env options images w1 of
             (r, t2, w2) \<Rightarrow> (r, t1 @ t2, w2)))"

text \<open>
  \<^verbatim>\<open>main\<close>, with \<^verbatim>\<open>findImages\<close> inlined (it calls glob and rethrows). The
  result is the exit status of the process: 1 from \<^verbatim>\<open>process.exit(1)\<close> in the
  \<^verbatim>\<open>catch\<close>, 0 when \<^verbatim>\<open>main\<close> returns.
\<close>

definition main :: "'w env \<Rightarrow> options \<Rightarrow> 'w \<Rightarrow> nat \<times> event list \<times> 'w" where
  "main env options w0 =
     (let t0 = [Log (Searching (opt_input options)),
                Log (OutputDirectory (opt_output options))];
          (r, w1) = glob_files env (opt_filter options) (opt_input options) w0;
          t1 = t0 @ [Glob (opt_filter options) (opt_input options) r]
      in case r of
           Inl e \<Rightarrow> (1, t1 @ [Err (TopLevelError e)], w1)
         | Inr images \<Rightarrow>
             if length images = 0 then (0, t1 @ [Log NoImagesFound], w1)
             else
               (case processImages env options images w1 of
                  (Inl e, t2, w2) \<Rightarrow>
                    (1, t1 @ [Log (Found (length images))] @ t2 @ [Err (TopLevelError e)], w2)
                | (Inr u, t2, w2) \<Rightarrow>
                    (0, t1 @ [Log (Found (length images))] @ t2
                          @ [Log (Done (length images))], w2)))"

text \<open>The whole script: the startup checks, then \<^verbatim>\<open>main()\<close>.\<close>

definition script :: "'w env \<Rightarrow> options \<Rightarrow> 'w \<Rightarrow> nat \<times> event list \<times> 'w" where
  "script env options w0 =
     (case startup env options w0 of
        (Some code, t, w) \<Rightarrow> (code, t, w)
      | (None, t, w) \<Rightarrow> (case main env options w of (code, t', w') \<Rightarrow> (code, t @ t', w')))"

section \<open>Reading a trace\<close>

text \<open>
  What the claims observe in a trace: the images that passed validation (the log of
  line 179), the constructions of an overlay from the watermark image and from the
  text, the buffers composited and the offsets of the composite calls.
\<close>

fun imageDim :: "event \<Rightarrow> (nat \<times> nat) option" where
  "imageDim (Log (ImageDimensions w h)) = Some (w, h)"
| "imageDim _ = None"

fun overlayBuild :: "event \<Rightarrow> (path option \<times> number) option" where
  "overlayBuild (ResizeWatermark file w r) = Some (file, w)"
| "overlayBuild _ = None"

fun textBuild :: "event \<Rightarrow> svg option" where
  "textBuild (SvgToPng doc r) = Some doc"
| "textBuild _ = None"

fun renderedBuffer :: "event \<Rightarrow> buffer option" where
  "renderedBuffer (SvgToPng doc (Inr b)) = Some b"
| "renderedBuffer _ = None"

fun compositedBuffer :: "event \<Rightarrow> buffer option" where
  "compositedBuffer (CompositeToFile f b l t a out r) = Some b"
| "compositedBuffer _ = None"

fun processingLog :: "event \<Rightarrow> string option" where
  "processingLog (Log (Processing filename)) = Some filename"
| "processingLog _ = None"

fun isErr :: "event \<Rightarrow> bool" where
  "isErr (Err m) = True"
| "isErr _ = False"

fun successLog :: "event \<Rightarrow> string option" where
  "successLog (Log (SuccessfullyProcessed filename)) = Some filename"
| "successLog _ = None"

fun written :: "event \<Rightarrow> path option" where
  "written (CompositeToFile f b l t a out None) = Some out"
| "written _ = None"

definition imageDims :: "event list \<Rightarrow> (nat \<times> nat) list" where
  "imageDims t = List.map_filter imageDim t"

definition overlayBuilds :: "event list \<Rightarrow> (path option \<times> number) list" where
  "overlayBuilds t = List.map_filter overlayBuild t"

definition textBuilds :: "event list \<Rightarrow> svg list" where
  "textBuilds t = List.map_filter textBuild t"

definition renderedBuffers :: "event list \<Rightarrow> buffer list" where
  "renderedBuffers t = List.map_filter renderedBuffer t"

definition compositedBuffers :: "event list \<Rightarrow> buffer list" where
  "compositedBuffers t = List.map_filter compositedBuffer t"

definition processingLogs :: "event list \<Rightarrow> string list" where
  "processingLogs t = List.map_filter processingLog t"

definition errors :: "event list \<Rightarrow> event list" where
  "errors t = filter isErr t"

definition writes :: "event list \<Rightarrow> path list" where
  "writes t = List.map_filter written t"

definition successLogs :: "event list \<Rightarrow> string list" where
  "successLogs t = List.map_filter successLog t"

text \<open>
  The part of a trace before the overlay is built: it holds the log of the file name and
  none of the later events.
\<close>

definition validationTrace :: "string \<Rightarrow> event list \<Rightarrow> bool" where
  "validationTrace name t \<longleftrightarrow>
     imageDims t = [] \<and> overlayBuilds t = [] \<and> textBuilds t = [] \<and> renderedBuffers t = []
     \<and> compositedBuffers t = [] \<and> writes t = [] \<and> successLogs t = []
     \<and> processingLogs t = [name]"

text \<open>A trace without any of the events above.\<close>

definition quiet :: "event list \<Rightarrow> bool" where
  "quiet t \<longleftrightarrow>
     imageDims t = [] \<and> overlayBuilds t = [] \<and> textBuilds t = [] \<and> renderedBuffers t = []
     \<and> compositedBuffers t = [] \<and> writes t = [] \<and> successLogs t = []
     \<and> processingLogs t = []"

text \<open>The trace of a result \<open>(outcome, trace, world)\<close>.\<close>

abbreviation traceOf :: "'r \<times> event list \<times> 'w \<Rightarrow> event list" where
  "traceOf x \<equiv> fst (snd x)"

section \<open>The specification's formulas\<close>

text \<open>
  The distance between the right edge of the overlay and the right edge of the base image,
  for an overlay of width \<open>overlayW\<close> placed at the horizontal offset \<open>x\<close>, and the
  same at the bottom.
\<close>

definition rightGap :: "real \<Rightarrow> real \<Rightarrow> real \<Rightarrow> real" where
  "rightGap baseW overlayW x = baseW - (x + overlayW)"

definition bottomGap :: "real \<Rightarrow> real \<Rightarrow> real \<Rightarrow> real" where
  "bottomGap baseH overlayH y = baseH - (y + overlayH)"

text \<open>
  The font size as the specification words it, before the minimum of 12 pixels: the
  candidate, its shrinking for a text of more than 8 characters, and the cap, in the
  arithmetic of the program.
\<close>

definition specFontSize :: "nat \<Rightarrow> number \<Rightarrow> number \<Rightarrow> number" where
  "specFontSize L w h =
     (let candidate = mathFloor (mathMin (quot w (Finite 5)) (quot h (decimal 1.2)));
          candidate' =
            (if L > 8 then
               mathFloor (mul (mul candidate (mathMin (Finite 1) (quot (Finite 8) (ofNat L))))
                            (decimal 1.5))
             else candidate)
      in mathMin candidate' (mathMin (quot w (mul (ofNat L) (decimal 0.6))) (mul h (decimal 0.9))))"

text \<open>
  The bounding box in which the builder sizes the text (lines 78 and 80), from the width
  and the height it is passed.
\<close>

definition textBox :: "number \<Rightarrow> number \<Rightarrow> number \<times> number" where
  "textBox width height = (watermarkWidth width, watermarkHeight height)"

text \<open>
  The bounding box of the text watermark as the specification words it, for a base image
  of \<open>W\<close> by \<open>H\<close> pixels and the scale \<open>s\<close>.
\<close>

definition specTextBox :: "number \<Rightarrow> number \<Rightarrow> number \<Rightarrow> number \<times> number" where
  "specTextBox W H s = (mathMax (Finite 50) (mul W s), mathMax (Finite 50) (mul H (decimal 0.6)))"

section \<open>A small world for concrete runs\<close>

text \<open>
  The world is the list of the paths that exist. Every file that exists is a readable
  image of 500 by 300 pixels, every overlay decodes to 101 by 50 pixels, and the glob
  finds three paths, the second of which does not exist.
\<close>

definition basename :: "path \<Rightarrow> string" where
  "basename p = rev (takeWhile (\<lambda>c. c \<noteq> CHR ''/'') (rev p))"

definition demoEnv :: "path list env" where
  "demoEnv =
     \<lparr> fs_existsSync = (\<lambda>p w. p \<in> set w),
       fs_ensureDirSync = (\<lambda>p w. (None, if p \<in> set w then w else w @ [p])),
       fs_access = (\<lambda>p w. (if p \<in> set w then None else Some ''ENOENT'', w)),
       fs_stat = (\<lambda>p w. (if p \<in> set w then Inr \<lparr> isFile = True, fsize = 1024 \<rparr>
                            else Inl ''ENOENT'', w)),
       glob_files = (\<lambda>pattern cwd w. (Inr [''in/a.png'', ''in/gone.png'', ''in/b.png''], w)),
       sharp_metadata = (\<lambda>p w. (Inr \<lparr> md_width = Some 500, md_height = Some 300 \<rparr>, w)),
       sharp_svg_png = (\<lambda>doc w. (Inr [1], w)),
       sharp_resize = (\<lambda>file n w. (Inr [2], w)),
       sharp_buffer_metadata = (\<lambda>b w. (Inr (101, 50), w)),
       sharp_composite = (\<lambda>file b l t a out w. (None, if out \<in> set w then w else w @ [out])),
       path_basename = basename,
       path_join = (\<lambda>dir file. dir @ ''/'' @ file) \<rparr>"

definition demoWorld :: "path list" where
  "demoWorld = [''in'', ''in/a.png'', ''in/b.png'', ''logo.png'']"

definition demoOptions :: "path option \<Rightarrow> string option \<Rightarrow> string \<Rightarrow> options" where
  "demoOptions w t p =
     \<lparr> opt_input = ''in'', opt_output = ''out'', opt_watermark = w, opt_text = t,
       opt_position = p, opt_opacity = decimal 0.5, opt_scale = decimal 0.2,
       opt_filter = ''*.{jpg,jpeg,png,gif,webp}'' \<rparr>"

text \<open>
  A second world, in which each step of \<open>processImage\<close> fails for one file: a path that
  does not exist, a directory, an empty file, a file whose \<^verbatim>\<open>stat\<close> throws, two files
  that sharp cannot read, an image of 100 by 80 pixels for which the watermark cannot be
  resized, one of 1000 by 300 pixels whose overlay cannot be read back, and an image whose
  output cannot be written.
\<close>

definition faultyEnv :: "path list env" where
  "faultyEnv = demoEnv
     \<lparr> fs_stat := (\<lambda>p w.
         (if p = ''in/race.png'' then Inl ''EIO''
          else Inr \<lparr> isFile = (p \<noteq> ''in/dir.png''),
                     fsize = (if p = ''in/empty.png'' then 0 else 1024) \<rparr>, w)),
       glob_files := (\<lambda>pattern cwd w.
         (Inr [''in/a.png'', ''in/gone.png'', ''in/dir.png'', ''in/empty.png'',
               ''in/race.png'', ''in/text.png'', ''in/nodims.png'', ''in/small.png'',
               ''in/wide.png'', ''in/locked.png'', ''in/z.png''], w)),
       sharp_metadata := (\<lambda>p w.
         (if p = ''in/text.png'' then Inl ''unsupported image format''
          else if p = ''in/nodims.png'' then Inr \<lparr> md_width = None, md_height = None \<rparr>
          else if p = ''in/small.png'' then Inr \<lparr> md_width = Some 100, md_height = Some 80 \<rparr>
          else if p = ''in/wide.png'' then Inr \<lparr> md_width = Some 1000, md_height = Some 300 \<rparr>
          else Inr \<lparr> md_width = Some 500, md_height = Some 300 \<rparr>, w)),
       sharp_resize := (\<lambda>file n w.
         (if n = Finite 50 then Inl ''cannot resize''
          else if n = Finite 200 then Inr [3]
          else Inr [2], w)),
       sharp_buffer_metadata := (\<lambda>b w.
         (if b = [3] then Inl ''corrupt header'' else Inr (101, 50), w)),
       sharp_composite := (\<lambda>file b l t a out w.
         if out = ''out/locked.png'' then (Some ''EACCES'', w)
         else (None, if out \<in> set w then w else w @ [out])) \<rparr>"

definition faultyWorld :: "path list" where
  "faultyWorld =
     [''in'', ''in/a.png'', ''in/dir.png'', ''in/empty.png'', ''in/race.png'',
      ''in/text.png'', ''in/nodims.png'', ''in/small.png'', ''in/wide.png'',
      ''in/locked.png'', ''in/z.png'', ''logo.png'', ''out'']"

section \<open>Evaluating numbers\<close>

lemma bitLength_simps [simp]:
  "bitLength 0 = 0"
  "bitLength 1 = 1"
  "bitLength (numeral k) = 1 + bitLength (numeral k div 2)"
  "bitLength (- numeral k) = 0"
  by (subst bitLength.simps, simp)+

lemmas fl_eval = fl_def exponent_def pow2_def roundEven_def Let_def decimal_def ofNat_def

lemma mathMax_50_idem: "mathMax (Finite 50) (mathMax (Finite 50) x) = mathMax (Finite 50) x"
  by (cases x) simp_all

lemma demoOptions_sel [simp]:
  "opt_input (demoOptions w t p) = ''in''"
  "opt_output (demoOptions w t p) = ''out''"
  "opt_watermark (demoOptions w t p) = w"
  "opt_text (demoOptions w t p) = t"
  "opt_position (demoOptions w t p) = p"
  "opt_opacity (demoOptions w t p) = decimal 0.5"
  "opt_scale (demoOptions w t p) = decimal 0.2"
  "opt_filter (demoOptions w t p) = ''*.{jpg,jpeg,png,gif,webp}''"
  by (simp_all add: demoOptions_def)

lemma watermarkMax_fifth:
  assumes "opt_scale options = decimal 0.2"
  shows "watermarkMax options 500 = Finite 100"
    and "watermarkMax options 300 = Finite 60"
    and "watermarkMax options 100 = Finite 50"
    and "watermarkMax options 80 = Finite 50"
    and "watermarkMax options 1000 = Finite 200"
  unfolding watermarkMax_def assms by (simp_all add: fl_eval)

section \<open>Placement\<close>

text \<open>
  C5. For every position string, compared without regard to case, and all dimensions:
  the four corner names give the offsets with a padding of 10, so that the overlay is
  exactly 10 pixels from the two edges of its corner (at the right and at the bottom the
  gap is measured from the far edge of the overlay); every other string, \<open>center\<close>
  among them, gives half of the free width and half of the free height. The function is
  total: no string raises an error.
\<close>

theorem getPositionCoordinates_placement:
  "(toLowerCase position = ''topleft'' \<longrightarrow>
      getPositionCoordinates position baseW baseH overlayW overlayH = (10, 10))
   \<and> (toLowerCase position = ''topright'' \<longrightarrow>
      getPositionCoordinates position baseW baseH overlayW overlayH
        = (baseW - overlayW - 10, 10)
      \<and> rightGap baseW overlayW
          (fst (getPositionCoordinates position baseW baseH overlayW overlayH)) = 10)
   \<and> (toLowerCase position = ''bottomleft'' \<longrightarrow>
      getPositionCoordinates position baseW baseH overlayW overlayH
        = (10, baseH - overlayH - 10)
      \<and> bottomGap baseH overlayH
          (snd (getPositionCoordinates position baseW baseH overlayW overlayH)) = 10)
   \<and> (toLowerCase position = ''bottomright'' \<longrightarrow>
      getPositionCoordinates position baseW baseH overlayW overlayH
        = (baseW - overlayW - 10, baseH - overlayH - 10)
      \<and> rightGap baseW overlayW
          (fst (getPositionCoordinates position baseW baseH overlayW overlayH)) = 10
      \<and> bottomGap baseH overlayH
          (snd (getPositionCoordinates position baseW baseH overlayW overlayH)) = 10)
   \<and> (toLowerCase position \<notin> {''topleft'', ''topright'', ''bottomleft'', ''bottomright''} \<longrightarrow>
      getPositionCoordinates position baseW baseH overlayW overlayH
        = ((baseW - overlayW) / 2, (baseH - overlayH) / 2))"
  by (simp add: getPositionCoordinates_def rightGap_def bottomGap_def Let_def)

theorem getPositionCoordinates_placement_witness:
  "getPositionCoordinates ''topleft'' 500 300 101 50 = (10, 10)
   \<and> getPositionCoordinates ''TopRight'' 500 300 101 50 = (389, 10)
   \<and> getPositionCoordinates ''bottomleft'' 500 300 101 50 = (10, 240)
   \<and> getPositionCoordinates ''BOTTOMRIGHT'' 500 300 101 50 = (389, 240)
   \<and> getPositionCoordinates ''center'' 500 300 101 50 = (399 / 2, 125)
   \<and> getPositionCoordinates ''middle'' 500 300 101 50 = (399 / 2, 125)"
  using getPositionCoordinates_placement [of "''topleft''" 500 300 101 50]
        getPositionCoordinates_placement [of "''TopRight''" 500 300 101 50]
        getPositionCoordinates_placement [of "''bottomleft''" 500 300 101 50]
        getPositionCoordinates_placement [of "''BOTTOMRIGHT''" 500 300 101 50]
        getPositionCoordinates_placement [of "''center''" 500 300 101 50]
        getPositionCoordinates_placement [of "''middle''" 500 300 101 50]
  by (simp add: toLowerCase_def lowerChar_def)

section \<open>The font size\<close>

text \<open>
  C6. For every text of length \<open>textLength\<close> and every box \<open>bw\<close> by \<open>bh\<close>, the font
  size after line 94 is the candidate \<open>floor (min (bw / 5) (bh / 1.2))\<close>, replaced by
  \<open>floor (candidate * min 1 (8 / textLength) * 1.5)\<close> when the text has more than 8
  characters, and capped at \<open>min (bw / (textLength * 0.6)) (bh * 0.9)\<close>, each operation
  being the one of JavaScript on doubles; the final font size, which the builder writes
  into the SVG document, is \<open>Math.max\<close> of 12 and that value, for the box of lines 78
  and 80.
\<close>

theorem fontSize_formula:
  "cappedFontSize textLength bw bh = specFontSize textLength bw bh
   \<and> fontSize textLength bw bh = mathMax (Finite 12) (specFontSize textLength bw bh)
   \<and> svg_fontSize (svgText txt width height)
       = mathMax (Finite 12)
           (specFontSize (length txt) (mathMax (Finite 50) width)
              (mathMax (Finite 50) (mul height (decimal 0.6))))"
proof -
  have c: "cappedFontSize L w h = specFontSize L w h" for L w h
    by (simp add: cappedFontSize_def scaledFontSize_def baseFontSize_def maxFontSize_def
          specFontSize_def Let_def)
  have "svg_fontSize (svgText txt width height)
      = fontSize (length txt) (watermarkWidth width) (watermarkHeight height)"
    by (simp add: svgText_def Let_def)
  with c show ?thesis
    by (simp add: fontSize_def watermarkWidth_def watermarkHeight_def)
qed

theorem fontSize_formula_witness:
  "cappedFontSize 12 (Finite 420) (Finite 60) = Finite 49
   \<and> fontSize 12 (Finite 420) (Finite 60) = Finite 49
   \<and> svg_fontSize (svgText ''abcdefghijkl'' (Finite 420) (Finite 100)) = Finite 49"
proof -
  have s: "specFontSize 12 (Finite 420) (Finite 60) = Finite 49"
    by (simp add: specFontSize_def fl_eval)
  have l: "length ''abcdefghijkl'' = 12"
    by simp
  have m: "mathMax (Finite 50) (Finite 420) = Finite 420"
    "mathMax (Finite 50) (mul (Finite 100) (decimal 0.6)) = Finite 60"
    by (simp_all add: fl_eval)
  show ?thesis
    using fontSize_formula [of 12 "Finite 420" "Finite 60" "''abcdefghijkl''"
            "Finite 420" "Finite 100"]
    unfolding l m s by simp
qed

lemma fontSize_at_least_12_or_NaN:
  "fontSize textLength bw bh = NaN \<or> fontSize textLength bw bh = Infinity True
   \<or> (\<exists>x. fontSize textLength bw bh = Finite x \<and> 12 \<le> x)"
  by (cases "cappedFontSize textLength bw bh") (simp_all add: fontSize_def)

text \<open>
  C7. The claim fails on the code for a scale that is not a number: with
  \<^verbatim>\<open>-t hello -s abc\<close> the scale is \<^verbatim>\<open>NaN\<close>, and so are the box, the font size
  after \<^verbatim>\<open>Math.max(12, fontSize)\<close> and the dimensions written into the SVG document
  of every image.
\<close>

theorem fontSize_is_NaN_when_the_scale_is_not_a_number:
  "textBuilds (traceOf (script demoEnv
       (demoOptions None (Some ''hello'') ''bottomright'' \<lparr>opt_scale := NaN\<rparr>) demoWorld))
     = [\<lparr>svg_width = NaN, svg_height = NaN, svg_fontSize = NaN, svg_content = ''hello''\<rparr>,
        \<lparr>svg_width = NaN, svg_height = NaN, svg_fontSize = NaN, svg_content = ''hello''\<rparr>]"
  by (simp add: script_def startup_def main_def processImage_def processImageTry_def
        buildWatermark_def applyWatermark_def createTextWatermark_def watermarkMax_def
        ofNat_def svgText_def watermarkWidth_def watermarkHeight_def fontSize_def
        cappedFontSize_def scaledFontSize_def baseFontSize_def maxFontSize_def
        svgWidth_def svgHeight_def demoEnv_def demoWorld_def basename_def Let_def
        textBuilds_def)

section \<open>Traces of one image\<close>

lemma map_filter_append:
  "List.map_filter f (xs @ ys) = List.map_filter f xs @ List.map_filter f ys"
  by (simp add: List.map_filter_def)

lemmas observer_defs = imageDims_def overlayBuilds_def textBuilds_def renderedBuffers_def
  compositedBuffers_def processingLogs_def errors_def writes_def successLogs_def

lemmas observer_simps = observer_defs map_filter_append

lemma applyWatermark_trace:
  assumes "applyWatermark env options inputFile filename outputFile W H b w0 = (t, w)"
  shows "imageDims t = [] \<and> processingLogs t = [] \<and> overlayBuilds t = []
    \<and> textBuilds t = [] \<and> renderedBuffers t = [] \<and> set (compositedBuffers t) \<subseteq> {b}
    \<and> (successLogs t = [filename] \<and> errors t = [] \<and> writes t = [outputFile]
        \<or> successLogs t = [] \<and> errors t \<noteq> [] \<and> writes t = [])"
  using assms
  by (auto simp: applyWatermark_def Let_def observer_simps
        split: prod.splits sum.splits option.splits)

lemma buildWatermark_text_trace:
  assumes "buildWatermark env options width height w0 = (r, t, w)"
    and "truthy (opt_text options)"
  shows "imageDims t = [] \<and> processingLogs t = [] \<and> overlayBuilds t = []
    \<and> textBuilds t = [svgText (the (opt_text options)) width height]
    \<and> compositedBuffers t = [] \<and> writes t = [] \<and> successLogs t = []
    \<and> (case r of Some b \<Rightarrow> renderedBuffers t = [b] \<and> errors t = [] | None \<Rightarrow> errors t \<noteq> [])"
  using assms
  by (auto simp: buildWatermark_def createTextWatermark_def Let_def observer_simps
        split: prod.splits sum.splits option.splits)

lemma buildWatermark_image_trace:
  assumes "buildWatermark env options width height w0 = (r, t, w)"
    and "\<not> truthy (opt_text options)"
  shows "imageDims t = [] \<and> processingLogs t = []
    \<and> overlayBuilds t = [(opt_watermark options, mathFloor width)]
    \<and> textBuilds t = [] \<and> renderedBuffers t = []
    \<and> compositedBuffers t = [] \<and> writes t = [] \<and> successLogs t = []
    \<and> (case r of Some b \<Rightarrow> errors t = [] | None \<Rightarrow> errors t \<noteq> [])"
  using assms
  by (auto simp: buildWatermark_def Let_def observer_simps
        split: prod.splits sum.splits option.splits)

lemma buildWatermark_trace:
  assumes "buildWatermark env options width height w0 = (r, t, w)"
  shows "imageDims t = [] \<and> processingLogs t = [] \<and> compositedBuffers t = []
    \<and> writes t = [] \<and> successLogs t = []
    \<and> (case r of Some b \<Rightarrow> errors t = [] | None \<Rightarrow> errors t \<noteq> [])"
  using buildWatermark_text_trace [OF assms] buildWatermark_image_trace [OF assms]
  by (cases "truthy (opt_text options)") (simp_all split: option.splits)

lemma processImageTry_cases [consumes 1, case_names skipped threw unbuilt applied]:
  assumes run: "processImageTry env options inputFile w0 = (r, t, w)"
  obtains
    (skipped) "r = Inr ()" "validationTrace (path_basename env inputFile) t" "errors t \<noteq> []"
  | (threw) e where "r = Inl e" "validationTrace (path_basename env inputFile) t"
      "errors t = []"
  | (unbuilt) tv W H w3 tb where "r = Inr ()"
      "t = tv @ Log (ImageDimensions W H) # tb"
      "validationTrace (path_basename env inputFile) tv" "errors tv = []"
      "buildWatermark env options (watermarkMax options W) (watermarkMax options H) w3
         = (None, tb, w)"
  | (applied) tv W H w3 b tb wb ta where "r = Inr ()"
      "t = tv @ Log (ImageDimensions W H) # tb @ ta"
      "validationTrace (path_basename env inputFile) tv" "errors tv = []"
      "buildWatermark env options (watermarkMax options W) (watermarkMax options H) w3
         = (Some b, tb, wb)"
      "applyWatermark env options inputFile (path_basename env inputFile)
         (path_join env (opt_output options) (path_basename env inputFile)) W H b wb
         = (ta, w)"
proof -
  note defs = processImageTry_def Let_def validationTrace_def observer_simps
  obtain r1 w1 where a1: "fs_access env inputFile w0 = (r1, w1)"
    by (cases "fs_access env inputFile w0")
  show thesis
  proof (cases r1)
    case (Some e)
    with run a1 show thesis
      by (intro skipped) (auto simp: defs)
  next
    case n1: None
    obtain r2 w2 where a2: "fs_stat env inputFile w1 = (r2, w2)"
      by (cases "fs_stat env inputFile w1")
    show thesis
    proof (cases r2)
      case (Inl e)
      with run a1 n1 a2 show thesis
        by (intro threw [of e]) (auto simp: defs)
    next
      case st: (Inr st)
      show thesis
      proof (cases "isFile st \<and> fsize st \<noteq> 0")
        case False
        with run a1 n1 a2 st show thesis
          by (intro skipped) (auto simp: defs split: if_splits)
      next
        case isfile: True
        obtain r3 w3 where a3: "sharp_metadata env inputFile w2 = (r3, w3)"
          by (cases "sharp_metadata env inputFile w2")
        show thesis
        proof (cases r3)
          case (Inl e)
          with run a1 n1 a2 st isfile a3 show thesis
            by (intro skipped) (auto simp: defs)
        next
          case md: (Inr md)
          show thesis
          proof (cases "missing (md_width md) \<or> missing (md_height md)")
            case True
            with run a1 n1 a2 st isfile a3 md show thesis
              by (intro skipped) (auto simp: defs)
          next
            case dims: False
            define W where "W = the (md_width md)"
            define H where "H = the (md_height md)"
            define tv where "tv = [Log (Processing (path_basename env inputFile)),
              Access inputFile None, Stat inputFile (Inr st), Metadata inputFile (Inr md)]"
            have tv: "validationTrace (path_basename env inputFile) tv" "errors tv = []"
              by (simp_all add: tv_def defs)
            obtain rb tb wb where
              b: "buildWatermark env options (watermarkMax options W) (watermarkMax options H) w3
                    = (rb, tb, wb)"
              by (cases "buildWatermark env options (watermarkMax options W)
                           (watermarkMax options H) w3")
            show thesis
            proof (cases rb)
              case None
              with run a1 n1 a2 st isfile a3 md dims b
              have "r = Inr ()" "t = tv @ Log (ImageDimensions W H) # tb" "w = wb"
                by (auto simp: processImageTry_def Let_def W_def H_def tv_def)
              with tv b None show thesis
                by (intro unbuilt [of tv W H tb w3]) auto
            next
              case (Some buf)
              obtain ta wa where
                ap: "applyWatermark env options inputFile (path_basename env inputFile)
                       (path_join env (opt_output options) (path_basename env inputFile))
                       W H buf wb = (ta, wa)"
                by (cases "applyWatermark env options inputFile (path_basename env inputFile)
                       (path_join env (opt_output options) (path_basename env inputFile))
                       W H buf wb")
              with run a1 n1 a2 st isfile a3 md dims b Some
              have "r = Inr ()" "t = tv @ Log (ImageDimensions W H) # tb @ ta" "w = wa"
                by (auto simp: processImageTry_def Let_def W_def H_def tv_def)
              with tv b Some ap show thesis
                by (intro applied [of tv W H tb ta w3 buf wb]) auto
            qed
          qed
        qed
      qed
    qed
  qed
qed


lemma processImage_eq:
  assumes "processImageTry env options inputFile w0 = (r, t, w)"
  shows "processImage env options inputFile w0 =
     (Inr (), (case r of Inl e \<Rightarrow> t @ [Err (ErrProcessing (path_basename env inputFile) e)]
               | Inr u \<Rightarrow> t), w)"
  using assms by (simp add: processImage_def split: sum.splits)

lemma processImage_returns: "fst (processImage env options inputFile w0) = Inr ()"
  by (cases "processImageTry env options inputFile w0") (simp add: processImage_eq)

lemma processImage_outcome:
  "processingLogs (fst (snd (processImage env options inputFile w0)))
     = [path_basename env inputFile]
   \<and> (successLogs (fst (snd (processImage env options inputFile w0)))
         = [path_basename env inputFile]
       \<and> errors (fst (snd (processImage env options inputFile w0))) = []
       \<and> writes (fst (snd (processImage env options inputFile w0)))
         = [path_join env (opt_output options) (path_basename env inputFile)]
      \<or> successLogs (fst (snd (processImage env options inputFile w0))) = []
       \<and> errors (fst (snd (processImage env options inputFile w0))) \<noteq> []
       \<and> writes (fst (snd (processImage env options inputFile w0))) = [])"
proof -
  obtain r t w where run: "processImageTry env options inputFile w0 = (r, t, w)"
    by (cases "processImageTry env options inputFile w0")
  note eq = processImage_eq [OF run]
  from run show ?thesis
  proof (cases rule: processImageTry_cases)
    case skipped
    then show ?thesis
      by (simp add: eq validationTrace_def)
  next
    case (threw e)
    then show ?thesis
      by (simp add: eq validationTrace_def observer_simps)
  next
    case (unbuilt tv W H w3 tb)
    with buildWatermark_trace [OF unbuilt(5)] show ?thesis
      by (simp add: eq validationTrace_def observer_simps)
  next
    case (applied tv W H w3 b tb wb ta)
    with buildWatermark_trace [OF applied(5)] applyWatermark_trace [OF applied(6)]
    show ?thesis
      by (auto simp: eq validationTrace_def observer_simps)
  qed
qed


lemma processImage_image_mode:
  assumes "\<not> truthy (opt_text options)"
  shows "overlayBuilds (fst (snd (processImage env options inputFile w0)))
      = map (\<lambda>(W, H). (opt_watermark options, mathFloor (watermarkMax options W)))
          (imageDims (fst (snd (processImage env options inputFile w0))))
    \<and> textBuilds (fst (snd (processImage env options inputFile w0))) = []"
proof -
  obtain r t w where run: "processImageTry env options inputFile w0 = (r, t, w)"
    by (cases "processImageTry env options inputFile w0")
  note eq = processImage_eq [OF run]
  from run show ?thesis
  proof (cases rule: processImageTry_cases)
    case skipped
    then show ?thesis
      by (simp add: eq validationTrace_def)
  next
    case (threw e)
    then show ?thesis
      by (simp add: eq validationTrace_def observer_simps)
  next
    case (unbuilt tv W H w3 tb)
    with buildWatermark_image_trace [OF unbuilt(5) assms] show ?thesis
      by (simp add: eq validationTrace_def observer_simps)
  next
    case (applied tv W H w3 b tb wb ta)
    with buildWatermark_image_trace [OF applied(5) assms]
      applyWatermark_trace [OF applied(6)]
    show ?thesis
      by (simp add: eq validationTrace_def observer_simps)
  qed
qed

lemma processImage_text_mode:
  assumes "truthy (opt_text options)"
  shows "overlayBuilds (fst (snd (processImage env options inputFile w0))) = []
    \<and> textBuilds (fst (snd (processImage env options inputFile w0)))
      = map (\<lambda>(W, H). svgText (the (opt_text options))
                         (watermarkMax options W) (watermarkMax options H))
          (imageDims (fst (snd (processImage env options inputFile w0))))
    \<and> set (compositedBuffers (fst (snd (processImage env options inputFile w0))))
      \<subseteq> set (renderedBuffers (fst (snd (processImage env options inputFile w0))))"
proof -
  obtain r t w where run: "processImageTry env options inputFile w0 = (r, t, w)"
    by (cases "processImageTry env options inputFile w0")
  note eq = processImage_eq [OF run]
  from run show ?thesis
  proof (cases rule: processImageTry_cases)
    case skipped
    then show ?thesis
      by (simp add: eq validationTrace_def)
  next
    case (threw e)
    then show ?thesis
      by (simp add: eq validationTrace_def observer_simps)
  next
    case (unbuilt tv W H w3 tb)
    with buildWatermark_text_trace [OF unbuilt(5) assms] show ?thesis
      by (simp add: eq validationTrace_def observer_simps)
  next
    case (applied tv W H w3 b tb wb ta)
    with buildWatermark_text_trace [OF applied(5) assms]
      applyWatermark_trace [OF applied(6)]
    show ?thesis
      by (simp add: eq validationTrace_def observer_simps)
  qed
qed


section \<open>Traces of a run\<close>

lemma processImages_Cons:
  "processImages env options (img # images) w0 =
     (fst (processImages env options images (snd (snd (processImage env options img w0)))),
      traceOf (processImage env options img w0)
        @ traceOf (processImages env options images
                     (snd (snd (processImage env options img w0)))),
      snd (snd (processImages env options images
                  (snd (snd (processImage env options img w0))))))"
  using processImage_returns [of env options img w0]
  by (cases "processImage env options img w0") (simp split: prod.splits)

lemma processImages_returns: "fst (processImages env options images w0) = Inr ()"
  by (induction images arbitrary: w0) (simp_all only: processImages_Cons processImages.simps fst_conv)

lemma processImages_processingLogs:
  "processingLogs (traceOf (processImages env options images w0))
     = map (path_basename env) images"
proof (induction images arbitrary: w0)
  case Nil
  show ?case by (simp add: observer_simps)
next
  case (Cons img images)
  have "processingLogs (traceOf (processImage env options img w0)) = [path_basename env img]"
    using processImage_outcome [of env options img w0] by simp
  with Cons show ?case
    by (simp add: processImages_Cons observer_simps del: processImages.simps)
qed

lemma processImages_image_mode:
  assumes "\<not> truthy (opt_text options)"
  shows "overlayBuilds (traceOf (processImages env options images w0))
      = map (\<lambda>(W, H). (opt_watermark options, mathFloor (watermarkMax options W)))
          (imageDims (traceOf (processImages env options images w0)))
    \<and> textBuilds (traceOf (processImages env options images w0)) = []"
proof (induction images arbitrary: w0)
  case Nil
  show ?case by (simp add: observer_simps)
next
  case (Cons img images)
  with processImage_image_mode [OF assms, of env img w0] show ?case
    by (simp add: processImages_Cons observer_simps del: processImages.simps)
qed

lemma processImages_text_mode:
  assumes "truthy (opt_text options)"
  shows "overlayBuilds (traceOf (processImages env options images w0)) = []
    \<and> textBuilds (traceOf (processImages env options images w0))
      = map (\<lambda>(W, H). svgText (the (opt_text options))
                         (watermarkMax options W) (watermarkMax options H))
          (imageDims (traceOf (processImages env options images w0)))
    \<and> set (compositedBuffers (traceOf (processImages env options images w0)))
      \<subseteq> set (renderedBuffers (traceOf (processImages env options images w0)))"
proof (induction images arbitrary: w0)
  case Nil
  show ?case by (simp add: observer_simps)
next
  case (Cons img images)
  with processImage_text_mode [OF assms, of env img w0] show ?case
    by (auto simp: processImages_Cons observer_simps simp del: processImages.simps)
qed

lemma main_cases [case_names failed empty processed]:
  obtains
    (failed) e w1 where
      "glob_files env (opt_filter options) (opt_input options) w0 = (Inl e, w1)"
      "main env options w0 =
         (1, [Log (Searching (opt_input options)), Log (OutputDirectory (opt_output options)),
              Glob (opt_filter options) (opt_input options) (Inl e),
              Err (TopLevelError e)], w1)"
  | (empty) w1 where
      "glob_files env (opt_filter options) (opt_input options) w0 = (Inr [], w1)"
      "main env options w0 =
         (0, [Log (Searching (opt_input options)), Log (OutputDirectory (opt_output options)),
              Glob (opt_filter options) (opt_input options) (Inr []),
              Log NoImagesFound], w1)"
  | (processed) images w1 where
      "glob_files env (opt_filter options) (opt_input options) w0 = (Inr images, w1)"
      "images \<noteq> []"
      "main env options w0 =
         (0, [Log (Searching (opt_input options)), Log (OutputDirectory (opt_output options)),
              Glob (opt_filter options) (opt_input options) (Inr images),
              Log (Found (length images))]
             @ traceOf (processImages env options images w1)
             @ [Log (Done (length images))],
          snd (snd (processImages env options images w1)))"
proof -
  obtain r w1 where g: "glob_files env (opt_filter options) (opt_input options) w0 = (r, w1)"
    by (cases "glob_files env (opt_filter options) (opt_input options) w0")
  show thesis
  proof (cases r)
    case (Inl e)
    with g show thesis
      by (intro failed [of e w1]) (simp_all add: main_def)
  next
    case (Inr images)
    show thesis
    proof (cases "images = []")
      case True
      with g Inr show thesis
        by (intro empty [of w1]) (simp_all add: main_def)
    next
      case False
      obtain rp tp wp where p: "processImages env options images w1 = (rp, tp, wp)"
        by (cases "processImages env options images w1")
      with processImages_returns [of env options images w1] have "rp = Inr ()"
        by simp
      with g Inr False p show thesis
        by (intro processed [of images w1]) (simp_all add: main_def)
    qed
  qed
qed

lemma startup_quiet: "quiet (traceOf (startup env options w0))"
  by (simp add: startup_def Let_def quiet_def observer_simps split: prod.splits option.splits)

lemma script_trace:
  "\<exists>pre images w post. traceOf (script env options w0)
       = pre @ traceOf (processImages env options images w) @ post
     \<and> quiet pre \<and> quiet post"
proof -
  obtain c t w where s: "startup env options w0 = (c, t, w)"
    by (cases "startup env options w0")
  with startup_quiet [of env options w0] have q: "quiet t"
    by simp
  have nil: "quiet []" "traceOf (processImages env options [] w) = []"
    by (simp_all add: quiet_def observer_simps)
  show ?thesis
  proof (cases c)
    case (Some code)
    with s have "traceOf (script env options w0) = t @ traceOf (processImages env options [] w) @ []"
      by (simp add: script_def)
    with q nil show ?thesis by blast
  next
    case None
    with s have t: "traceOf (script env options w0) = t @ traceOf (main env options w)"
      by (simp add: script_def split: prod.splits)
    show ?thesis
    proof (cases rule: main_cases [of env options w])
      case (failed e w1)
      with t q have "traceOf (script env options w0)
          = (t @ traceOf (main env options w)) @ traceOf (processImages env options [] w) @ []"
        "quiet (t @ traceOf (main env options w))"
        by (simp_all add: quiet_def observer_simps)
      with nil show ?thesis by blast
    next
      case (empty w1)
      with t q have "traceOf (script env options w0)
          = (t @ traceOf (main env options w)) @ traceOf (processImages env options [] w) @ []"
        "quiet (t @ traceOf (main env options w))"
        by (simp_all add: quiet_def observer_simps)
      with nil show ?thesis by blast
    next
      case (processed images w1)
      with t q have "traceOf (script env options w0)
          = (t @ [Log (Searching (opt_input options)),
                  Log (OutputDirectory (opt_output options)),
                  Glob (opt_filter options) (opt_input options) (Inr images),
                  Log (Found (length images))])
            @ traceOf (processImages env options images w1) @ [Log (Done (length images))]"
        "quiet (t @ [Log (Searching (opt_input options)),
                  Log (OutputDirectory (opt_output options)),
                  Glob (opt_filter options) (opt_input options) (Inr images),
                  Log (Found (length images))])"
        "quiet [Log (Done (length images))]"
        by (simp_all add: quiet_def observer_simps)
      then show ?thesis by blast
    qed
  qed
qed


section \<open>Concrete runs\<close>

lemmas run_defs = script_def startup_def main_def processImage_def processImageTry_def
  buildWatermark_def applyWatermark_def createTextWatermark_def watermarkMax_fifth
  getPositionCoordinates_def toLowerCase_def lowerChar_def
  demoEnv_def demoWorld_def basename_def Let_def

lemma demo_image_run:
  "script demoEnv (demoOptions (Some ''logo.png'') None ''center'') demoWorld =
     (0, [ExistsSync ''in'' True, EnsureDirSync ''out'' None,
          Log (Searching ''in''), Log (OutputDirectory ''out''),
          Glob ''*.{jpg,jpeg,png,gif,webp}'' ''in''
            (Inr [''in/a.png'', ''in/gone.png'', ''in/b.png'']),
          Log (Found 3),
          Log (Processing ''a.png''), Access ''in/a.png'' None,
          Stat ''in/a.png'' (Inr \<lparr>isFile = True, fsize = 1024\<rparr>),
          Metadata ''in/a.png'' (Inr \<lparr>md_width = Some 500, md_height = Some 300\<rparr>),
          Log (ImageDimensions 500 300),
          ResizeWatermark (Some ''logo.png'') (Finite 100) (Inr [2]),
          BufferMetadata [2] (Inr (101, 50)),
          CompositeToFile ''in/a.png'' [2] 199 125 (decimal 0.5) ''out/a.png'' None,
          Log (SuccessfullyProcessed ''a.png''),
          Log (Processing ''gone.png''), Access ''in/gone.png'' (Some ''ENOENT''),
          Err (CannotAccess ''in/gone.png'' ''ENOENT''),
          Log (Processing ''b.png''), Access ''in/b.png'' None,
          Stat ''in/b.png'' (Inr \<lparr>isFile = True, fsize = 1024\<rparr>),
          Metadata ''in/b.png'' (Inr \<lparr>md_width = Some 500, md_height = Some 300\<rparr>),
          Log (ImageDimensions 500 300),
          ResizeWatermark (Some ''logo.png'') (Finite 100) (Inr [2]),
          BufferMetadata [2] (Inr (101, 50)),
          CompositeToFile ''in/b.png'' [2] 199 125 (decimal 0.5) ''out/b.png'' None,
          Log (SuccessfullyProcessed ''b.png''),
          Log (Done 3)],
      [''in'', ''in/a.png'', ''in/b.png'', ''logo.png'', ''out'', ''out/a.png'', ''out/b.png''])"
  by (simp add: run_defs)



lemma script_neither:
  assumes "\<not> truthy (opt_watermark options)" "\<not> truthy (opt_text options)"
  shows "fst (startup env options w0) = Some 1
    \<and> script env options w0
        = (1, traceOf (startup env options w0), snd (snd (startup env options w0)))"
  using assms
  by (simp add: script_def startup_def Let_def split: prod.splits option.splits)

section \<open>Startup\<close>

text \<open>
  C1, amended. At startup at least one of the watermark image path and the watermark
  text must be set (defined and not empty). A run with neither exits with status 1 at
  startup: the trace of the script is the trace of the startup checks, and \<open>main\<close> is
  not entered. A run with one of them or with both passes the startup checks when the
  input directory exists and the output directory can be ensured.
\<close>

theorem startup_requires_a_watermark:
  "(\<not> truthy (opt_watermark options) \<and> \<not> truthy (opt_text options) \<longrightarrow>
      fst (startup env options w0) = Some 1
      \<and> script env options w0
          = (1, traceOf (startup env options w0), snd (snd (startup env options w0))))
   \<and> ((truthy (opt_watermark options) \<or> truthy (opt_text options))
        \<and> fs_existsSync env (opt_input options) w0
        \<and> fst (fs_ensureDirSync env (opt_output options) w0) = None \<longrightarrow>
      fst (startup env options w0) = None
      \<and> traceOf (script env options w0)
          = traceOf (startup env options w0)
            @ traceOf (main env options (snd (snd (startup env options w0)))))"
proof -
  have "fst (startup env options w0) = None
      \<and> traceOf (script env options w0)
          = traceOf (startup env options w0)
            @ traceOf (main env options (snd (snd (startup env options w0))))"
    if "truthy (opt_watermark options) \<or> truthy (opt_text options)"
      and "fs_existsSync env (opt_input options) w0"
      and "fst (fs_ensureDirSync env (opt_output options) w0) = None"
    using that
    by (cases "fs_ensureDirSync env (opt_output options) w0")
       (auto simp: script_def startup_def Let_def split: prod.splits)
  with script_neither [of options env w0] show ?thesis
    by blast
qed

theorem startup_requires_a_watermark_witness:
  "\<not> truthy (opt_watermark (demoOptions None (Some []) ''center''))
   \<and> \<not> truthy (opt_text (demoOptions None (Some []) ''center''))
   \<and> script demoEnv (demoOptions None (Some []) ''center'') demoWorld
       = (1, [ExistsSync ''in'' True, EnsureDirSync ''out'' None, Err NeitherProvided],
          demoWorld @ [''out''])
   \<and> truthy (opt_watermark (demoOptions (Some ''logo.png'') (Some ''ab'') ''center''))
   \<and> fs_existsSync demoEnv ''in'' demoWorld
   \<and> fst (fs_ensureDirSync demoEnv ''out'' demoWorld) = None
   \<and> fst (startup demoEnv (demoOptions (Some ''logo.png'') (Some ''ab'') ''center'')
            demoWorld) = None"
proof -
  have t: "startup demoEnv (demoOptions None (Some []) ''center'') demoWorld
      = (Some 1, [ExistsSync ''in'' True, EnsureDirSync ''out'' None, Err NeitherProvided],
         demoWorld @ [''out''])"
    by (simp add: startup_def demoEnv_def demoOptions_def demoWorld_def)
  have h: "fs_existsSync demoEnv ''in'' demoWorld"
    "fst (fs_ensureDirSync demoEnv ''out'' demoWorld) = None"
    by (simp_all add: demoEnv_def demoWorld_def)
  show ?thesis
    using startup_requires_a_watermark
            [of "demoOptions None (Some []) ''center''" demoEnv demoWorld]
          startup_requires_a_watermark
            [of "demoOptions (Some ''logo.png'') (Some ''ab'') ''center''" demoEnv demoWorld]
          h
    by (simp add: t)
qed

theorem both_set_is_accepted:
  "fst (startup demoEnv (demoOptions (Some ''logo.png'') (Some ''ab'') ''bottomright'')
          demoWorld) = None
   \<and> fst (script demoEnv (demoOptions (Some ''logo.png'') (Some ''ab'') ''bottomright'')
            demoWorld) = 0"
  by (simp add: run_defs)

text \<open>
  C4, amended. When neither the watermark image nor the text is set and the input
  directory exists, the script calls \<open>ensureDirSync\<close> on the output directory, which
  creates it when it is absent, and only then exits with status 1. The existence check
  and that call are its only file system effects: there is no glob and no access to
  any image.
\<close>

theorem neither_set_exits_after_ensureDir:
  assumes "\<not> truthy (opt_watermark options)" and "\<not> truthy (opt_text options)"
    and "fs_existsSync env (opt_input options) w0"
  shows "script env options w0 =
     (1, [ExistsSync (opt_input options) True,
          EnsureDirSync (opt_output options)
            (fst (fs_ensureDirSync env (opt_output options) w0)),
          (case fst (fs_ensureDirSync env (opt_output options) w0) of
             None \<Rightarrow> Err NeitherProvided
           | Some e \<Rightarrow> Uncaught e)],
      snd (fs_ensureDirSync env (opt_output options) w0))"
  using assms
  by (cases "fs_ensureDirSync env (opt_output options) w0")
     (simp add: script_def startup_def Let_def split: option.splits)

theorem neither_set_exits_after_ensureDir_witness:
  "\<not> truthy (opt_watermark (demoOptions None None ''center''))
   \<and> \<not> truthy (opt_text (demoOptions None None ''center''))
   \<and> fs_existsSync demoEnv (opt_input (demoOptions None None ''center'')) demoWorld
   \<and> script demoEnv (demoOptions None None ''center'') demoWorld
       = (1, [ExistsSync ''in'' True, EnsureDirSync ''out'' None, Err NeitherProvided],
          [''in'', ''in/a.png'', ''in/b.png'', ''logo.png'', ''out''])"
proof -
  have h: "\<not> truthy (opt_watermark (demoOptions None None ''center''))"
    "\<not> truthy (opt_text (demoOptions None None ''center''))"
    "fs_existsSync demoEnv (opt_input (demoOptions None None ''center'')) demoWorld"
    by (simp_all add: demoOptions_def demoEnv_def demoWorld_def)
  show ?thesis
    using neither_set_exits_after_ensureDir [OF h] h
    by (simp add: demoOptions_def demoEnv_def demoWorld_def)
qed

theorem output_directory_created_before_exit:
  "''out'' \<notin> set demoWorld
   \<and> fst (script demoEnv (demoOptions None None ''bottomright'') demoWorld) = 1
   \<and> traceOf (script demoEnv (demoOptions None None ''bottomright'') demoWorld)
       = [ExistsSync ''in'' True, EnsureDirSync ''out'' None, Err NeitherProvided]
   \<and> ''out'' \<in> set (snd (snd (script demoEnv (demoOptions None None ''bottomright'')
                                 demoWorld)))"
  by (simp add: run_defs)


section \<open>Failures of one file\<close>

text \<open>The paths of \<open>processImage\<close>, one for each step that can fail.\<close>

lemma processImage_unreadable:
  assumes "fs_access env f w = (Some e, w1)"
  shows "processImage env options f w =
     (Inr (), [Log (Processing (path_basename env f)), Access f (Some e),
               Err (CannotAccess f e)], w1)"
  using assms by (simp add: processImage_def processImageTry_def Let_def)

lemma processImage_stat_throws:
  assumes "fs_access env f w = (None, w1)" and "fs_stat env f w1 = (Inl e, w2)"
  shows "processImage env options f w =
     (Inr (), [Log (Processing (path_basename env f)), Access f None, Stat f (Inl e),
               Err (ErrProcessing (path_basename env f) e)], w2)"
  using assms by (simp add: processImage_def processImageTry_def Let_def)

lemma processImage_not_a_file:
  assumes "fs_access env f w = (None, w1)" and "fs_stat env f w1 = (Inr st, w2)"
    and "\<not> isFile st"
  shows "processImage env options f w =
     (Inr (), [Log (Processing (path_basename env f)), Access f None, Stat f (Inr st),
               Err (NotAFile f)], w2)"
  using assms by (simp add: processImage_def processImageTry_def Let_def)

lemma processImage_empty:
  assumes "fs_access env f w = (None, w1)" and "fs_stat env f w1 = (Inr st, w2)"
    and "isFile st" and "fsize st = 0"
  shows "processImage env options f w =
     (Inr (), [Log (Processing (path_basename env f)), Access f None, Stat f (Inr st),
               Err (IsEmpty f)], w2)"
  using assms by (simp add: processImage_def processImageTry_def Let_def)

lemma processImage_undecodable:
  assumes "fs_access env f w = (None, w1)" and "fs_stat env f w1 = (Inr st, w2)"
    and "isFile st" and "fsize st \<noteq> 0" and "sharp_metadata env f w2 = (Inl e, w3)"
  shows "processImage env options f w =
     (Inr (), [Log (Processing (path_basename env f)), Access f None, Stat f (Inr st),
               Metadata f (Inl e), Err (ErrReadingMetadata (path_basename env f) e)], w3)"
  using assms by (simp add: processImage_def processImageTry_def Let_def)

lemma processImage_no_dimensions:
  assumes "fs_access env f w = (None, w1)" and "fs_stat env f w1 = (Inr st, w2)"
    and "isFile st" and "fsize st \<noteq> 0" and "sharp_metadata env f w2 = (Inr md, w3)"
    and "missing (md_width md) \<or> missing (md_height md)"
  shows "processImage env options f w =
     (Inr (), [Log (Processing (path_basename env f)), Access f None, Stat f (Inr st),
               Metadata f (Inr md), Err (InvalidDimensions (path_basename env f))], w3)"
  using assms by (auto simp: processImage_def processImageTry_def Let_def)

lemma processImage_no_overlay:
  assumes "fs_access env f w = (None, w1)" and "fs_stat env f w1 = (Inr st, w2)"
    and "isFile st" and "fsize st \<noteq> 0" and "sharp_metadata env f w2 = (Inr md, w3)"
    and "md_width md = Some W" and "W \<noteq> 0" and "md_height md = Some H" and "H \<noteq> 0"
    and "buildWatermark env options (watermarkMax options W) (watermarkMax options H) w3
           = (None, tb, w5)"
  shows "processImage env options f w =
     (Inr (), [Log (Processing (path_basename env f)), Access f None, Stat f (Inr st),
               Metadata f (Inr md), Log (ImageDimensions W H)] @ tb, w5)"
  using assms by (simp add: processImage_def processImageTry_def Let_def)

lemma processImage_overlay:
  assumes "fs_access env f w = (None, w1)" and "fs_stat env f w1 = (Inr st, w2)"
    and "isFile st" and "fsize st \<noteq> 0" and "sharp_metadata env f w2 = (Inr md, w3)"
    and "md_width md = Some W" and "W \<noteq> 0" and "md_height md = Some H" and "H \<noteq> 0"
    and "buildWatermark env options (watermarkMax options W) (watermarkMax options H) w3
           = (Some b, tb, w5)"
  shows "processImage env options f w =
     (Inr (), [Log (Processing (path_basename env f)), Access f None, Stat f (Inr st),
               Metadata f (Inr md), Log (ImageDimensions W H)] @ tb
              @ fst (applyWatermark env options f (path_basename env f)
                      (path_join env (opt_output options) (path_basename env f)) W H b w5),
      snd (applyWatermark env options f (path_basename env f)
             (path_join env (opt_output options) (path_basename env f)) W H b w5))"
  using assms
  by (cases "applyWatermark env options f (path_basename env f)
               (path_join env (opt_output options) (path_basename env f)) W H b w5")
     (simp add: processImage_def processImageTry_def Let_def)

lemma buildWatermark_text_fails:
  assumes "opt_text options = Some txt" and "txt \<noteq> []"
    and "sharp_svg_png env (svgText txt width height) w = (Inl e, w1)"
  shows "buildWatermark env options width height w =
     (None, [Log (TextInfo txt (length txt) (svg_fontSize (svgText txt width height))
                    (svg_width (svgText txt width height))
                    (svg_height (svgText txt width height))),
             SvgToPng (svgText txt width height) (Inl e),
             Err (ErrCreatingSvg e), Log (SvgContent (svgText txt width height)),
             Err (ErrCreatingTextWatermark e)], w1)"
  using assms by (simp add: buildWatermark_def createTextWatermark_def Let_def)

lemma buildWatermark_image_fails:
  assumes "\<not> truthy (opt_text options)"
    and "sharp_resize env (opt_watermark options) (mathFloor width) w = (Inl e, w1)"
  shows "buildWatermark env options width height w =
     (None, [ResizeWatermark (opt_watermark options) (mathFloor width) (Inl e),
             Err (ErrLoadingWatermark e)], w1)"
  using assms by (simp add: buildWatermark_def)

lemma applyWatermark_metadata_fails:
  assumes "sharp_buffer_metadata env b w = (Inl e, w1)"
  shows "applyWatermark env options f name out W H b w =
     ([BufferMetadata b (Inl e), Err (ErrWatermarkMetadata e)], w1)"
  using assms by (simp add: applyWatermark_def)

lemma applyWatermark_composite_fails:
  assumes "sharp_buffer_metadata env b w = (Inr (ow, oh), w1)"
    and "sharp_composite env f b
           \<lfloor>fst (getPositionCoordinates (opt_position options)
                    (real W) (real H) (real ow) (real oh))\<rfloor>
           \<lfloor>snd (getPositionCoordinates (opt_position options)
                    (real W) (real H) (real ow) (real oh))\<rfloor>
           (opt_opacity options) out w1 = (Some e, w2)"
  shows "applyWatermark env options f name out W H b w =
     ([BufferMetadata b (Inr (ow, oh)),
       CompositeToFile f b
         \<lfloor>fst (getPositionCoordinates (opt_position options)
                  (real W) (real H) (real ow) (real oh))\<rfloor>
         \<lfloor>snd (getPositionCoordinates (opt_position options)
                  (real W) (real H) (real ow) (real oh))\<rfloor>
         (opt_opacity options) out (Some e),
       Err (ErrApplying name e)], w2)"
  using assms by (simp add: applyWatermark_def Let_def)

lemma processImages_step:
  "processImages env options (f # fs) w =
     (Inr (),
      traceOf (processImage env options f w)
        @ traceOf (processImages env options fs (snd (snd (processImage env options f w)))),
      snd (snd (processImages env options fs (snd (snd (processImage env options f w))))))"
  using processImages_returns [of env options fs "snd (snd (processImage env options f w))"]
  by (simp only: processImages_Cons)

lemma main_run:
  assumes "glob_files env (opt_filter options) (opt_input options) w0 = (Inr images, w1)"
  shows "main env options w0 =
     (0, [Log (Searching (opt_input options)), Log (OutputDirectory (opt_output options)),
          Glob (opt_filter options) (opt_input options) (Inr images)]
         @ (if images = [] then [Log NoImagesFound]
            else [Log (Found (length images))]
                 @ traceOf (processImages env options images w1)
                 @ [Log (Done (length images))]),
      snd (snd (processImages env options images w1)))"
proof (cases rule: main_cases [of env options w0])
  case (failed e w1')
  with assms show ?thesis by simp
next
  case (empty w1')
  with assms show ?thesis by simp
next
  case (processed images' w1')
  with assms show ?thesis by simp
qed

text \<open>
  C8. Whatever the libraries do, \<open>processImage\<close> returns without an exception. Each
  failure of a step makes it log one error and return at once, with nothing composited
  and nothing written: a file that cannot be read, an exception of \<^verbatim>\<open>stat\<close>, a
  path that is not a file, an empty file, metadata that cannot be decoded or has no
  dimensions, an overlay that cannot be built (from the text or from the image), an
  overlay whose metadata cannot be read, and a composite that fails. The loop of
  \<open>main\<close> runs \<open>processImage\<close> on every file the glob found, in order, each in the world
  that the file before it left and whatever the outcome of that file, and \<open>main\<close>
  then logs the end of the run and exits with status 0.
\<close>

theorem per_file_failures_are_isolated:
  "fst (processImage env options f w) = Inr ()
   \<and> (successLogs (traceOf (processImage env options f w)) = [path_basename env f]
       \<and> errors (traceOf (processImage env options f w)) = []
       \<and> writes (traceOf (processImage env options f w))
         = [path_join env (opt_output options) (path_basename env f)]
      \<or> successLogs (traceOf (processImage env options f w)) = []
       \<and> errors (traceOf (processImage env options f w)) \<noteq> []
       \<and> writes (traceOf (processImage env options f w)) = [])
   \<and> (fs_access env f w = (Some e, w1) \<longrightarrow>
        processImage env options f w =
          (Inr (), [Log (Processing (path_basename env f)), Access f (Some e),
                    Err (CannotAccess f e)], w1))
   \<and> (fs_access env f w = (None, w1) \<and> fs_stat env f w1 = (Inl e, w2) \<longrightarrow>
        processImage env options f w =
          (Inr (), [Log (Processing (path_basename env f)), Access f None, Stat f (Inl e),
                    Err (ErrProcessing (path_basename env f) e)], w2))
   \<and> (fs_access env f w = (None, w1) \<and> fs_stat env f w1 = (Inr st, w2) \<and> \<not> isFile st \<longrightarrow>
        processImage env options f w =
          (Inr (), [Log (Processing (path_basename env f)), Access f None, Stat f (Inr st),
                    Err (NotAFile f)], w2))
   \<and> (fs_access env f w = (None, w1) \<and> fs_stat env f w1 = (Inr st, w2) \<and> isFile st
        \<and> fsize st = 0 \<longrightarrow>
        processImage env options f w =
          (Inr (), [Log (Processing (path_basename env f)), Access f None, Stat f (Inr st),
                    Err (IsEmpty f)], w2))
   \<and> (fs_access env f w = (None, w1) \<and> fs_stat env f w1 = (Inr st, w2) \<and> isFile st
        \<and> fsize st \<noteq> 0 \<and> sharp_metadata env f w2 = (Inl e, w3) \<longrightarrow>
        processImage env options f w =
          (Inr (), [Log (Processing (path_basename env f)), Access f None, Stat f (Inr st),
                    Metadata f (Inl e),
                    Err (ErrReadingMetadata (path_basename env f) e)], w3))
   \<and> (fs_access env f w = (None, w1) \<and> fs_stat env f w1 = (Inr st, w2) \<and> isFile st
        \<and> fsize st \<noteq> 0 \<and> sharp_metadata env f w2 = (Inr md, w3)
        \<and> (missing (md_width md) \<or> missing (md_height md)) \<longrightarrow>
        processImage env options f w =
          (Inr (), [Log (Processing (path_basename env f)), Access f None, Stat f (Inr st),
                    Metadata f (Inr md),
                    Err (InvalidDimensions (path_basename env f))], w3))
   \<and> (fs_access env f w = (None, w1) \<and> fs_stat env f w1 = (Inr st, w2) \<and> isFile st
        \<and> fsize st \<noteq> 0 \<and> sharp_metadata env f w2 = (Inr md, w3)
        \<and> md_width md = Some W \<and> W \<noteq> 0 \<and> md_height md = Some H \<and> H \<noteq> 0
        \<and> buildWatermark env options (watermarkMax options W) (watermarkMax options H) w3
            = (None, tb, w5) \<longrightarrow>
        processImage env options f w =
          (Inr (), [Log (Processing (path_basename env f)), Access f None, Stat f (Inr st),
                    Metadata f (Inr md), Log (ImageDimensions W H)] @ tb, w5))
   \<and> (fs_access env f w = (None, w1) \<and> fs_stat env f w1 = (Inr st, w2) \<and> isFile st
        \<and> fsize st \<noteq> 0 \<and> sharp_metadata env f w2 = (Inr md, w3)
        \<and> md_width md = Some W \<and> W \<noteq> 0 \<and> md_height md = Some H \<and> H \<noteq> 0
        \<and> buildWatermark env options (watermarkMax options W) (watermarkMax options H) w3
            = (Some b, tb, w5) \<longrightarrow>
        processImage env options f w =
          (Inr (), [Log (Processing (path_basename env f)), Access f None, Stat f (Inr st),
                    Metadata f (Inr md), Log (ImageDimensions W H)] @ tb
                   @ fst (applyWatermark env options f (path_basename env f)
                            (path_join env (opt_output options) (path_basename env f))
                            W H b w5),
           snd (applyWatermark env options f (path_basename env f)
                  (path_join env (opt_output options) (path_basename env f)) W H b w5)))
   \<and> (opt_text options = Some txt \<and> txt \<noteq> []
        \<and> sharp_svg_png env (svgText txt width height) w = (Inl e, w1) \<longrightarrow>
        buildWatermark env options width height w =
          (None, [Log (TextInfo txt (length txt) (svg_fontSize (svgText txt width height))
                         (svg_width (svgText txt width height))
                         (svg_height (svgText txt width height))),
                  SvgToPng (svgText txt width height) (Inl e),
                  Err (ErrCreatingSvg e), Log (SvgContent (svgText txt width height)),
                  Err (ErrCreatingTextWatermark e)], w1))
   \<and> (\<not> truthy (opt_text options)
        \<and> sharp_resize env (opt_watermark options) (mathFloor width) w = (Inl e, w1) \<longrightarrow>
        buildWatermark env options width height w =
          (None, [ResizeWatermark (opt_watermark options) (mathFloor width) (Inl e),
                  Err (ErrLoadingWatermark e)], w1))
   \<and> (sharp_buffer_metadata env b w = (Inl e, w1) \<longrightarrow>
        applyWatermark env options f name out W H b w =
          ([BufferMetadata b (Inl e), Err (ErrWatermarkMetadata e)], w1))
   \<and> (sharp_buffer_metadata env b w = (Inr (ow, oh), w1)
        \<and> sharp_composite env f b
             \<lfloor>fst (getPositionCoordinates (opt_position options)
                      (real W) (real H) (real ow) (real oh))\<rfloor>
             \<lfloor>snd (getPositionCoordinates (opt_position options)
                      (real W) (real H) (real ow) (real oh))\<rfloor>
             (opt_opacity options) out w1 = (Some e, w2) \<longrightarrow>
        applyWatermark env options f name out W H b w =
          ([BufferMetadata b (Inr (ow, oh)),
            CompositeToFile f b
              \<lfloor>fst (getPositionCoordinates (opt_position options)
                       (real W) (real H) (real ow) (real oh))\<rfloor>
              \<lfloor>snd (getPositionCoordinates (opt_position options)
                       (real W) (real H) (real ow) (real oh))\<rfloor>
              (opt_opacity options) out (Some e),
            Err (ErrApplying name e)], w2))
   \<and> processImages env options (f # fs) w =
        (Inr (),
         traceOf (processImage env options f w)
           @ traceOf (processImages env options fs (snd (snd (processImage env options f w)))),
         snd (snd (processImages env options fs (snd (snd (processImage env options f w))))))
   \<and> (glob_files env (opt_filter options) (opt_input options) w0 = (Inr images, w') \<longrightarrow>
        main env options w0 =
          (0, [Log (Searching (opt_input options)),
               Log (OutputDirectory (opt_output options)),
               Glob (opt_filter options) (opt_input options) (Inr images)]
              @ (if images = [] then [Log NoImagesFound]
                 else [Log (Found (length images))]
                      @ traceOf (processImages env options images w')
                      @ [Log (Done (length images))]),
           snd (snd (processImages env options images w'))))"
proof (intro conjI impI; (elim conjE)?)
  show "fst (processImage env options f w) = Inr ()"
    by (rule processImage_returns)
  show "successLogs (traceOf (processImage env options f w)) = [path_basename env f]
       \<and> errors (traceOf (processImage env options f w)) = []
       \<and> writes (traceOf (processImage env options f w))
         = [path_join env (opt_output options) (path_basename env f)]
      \<or> successLogs (traceOf (processImage env options f w)) = []
       \<and> errors (traceOf (processImage env options f w)) \<noteq> []
       \<and> writes (traceOf (processImage env options f w)) = []"
    using processImage_outcome [of env options f w] by blast
qed (rule processImages_step
     | (rule processImage_unreadable processImage_stat_throws processImage_not_a_file
          processImage_empty processImage_undecodable processImage_no_dimensions
          processImage_no_overlay processImage_overlay buildWatermark_text_fails
          buildWatermark_image_fails applyWatermark_metadata_fails
          applyWatermark_composite_fails main_run; assumption))+

lemma faulty_files:
  "processingLogs (traceOf (processImages faultyEnv
       (demoOptions (Some ''logo.png'') None ''center'')
       [''in/a.png'', ''in/gone.png'', ''in/dir.png'', ''in/empty.png'', ''in/race.png'',
        ''in/text.png'', ''in/nodims.png'', ''in/small.png'', ''in/wide.png'',
        ''in/locked.png'', ''in/z.png''] faultyWorld))
     = [''a.png'', ''gone.png'', ''dir.png'', ''empty.png'', ''race.png'', ''text.png'',
        ''nodims.png'', ''small.png'', ''wide.png'', ''locked.png'', ''z.png'']"
  "successLogs (traceOf (processImages faultyEnv
       (demoOptions (Some ''logo.png'') None ''center'')
       [''in/a.png'', ''in/gone.png'', ''in/dir.png'', ''in/empty.png'', ''in/race.png'',
        ''in/text.png'', ''in/nodims.png'', ''in/small.png'', ''in/wide.png'',
        ''in/locked.png'', ''in/z.png''] faultyWorld))
     = [''a.png'', ''z.png'']"
  "writes (traceOf (processImages faultyEnv
       (demoOptions (Some ''logo.png'') None ''center'')
       [''in/a.png'', ''in/gone.png'', ''in/dir.png'', ''in/empty.png'', ''in/race.png'',
        ''in/text.png'', ''in/nodims.png'', ''in/small.png'', ''in/wide.png'',
        ''in/locked.png'', ''in/z.png''] faultyWorld))
     = [''out/a.png'', ''out/z.png'']"
  by (simp_all add: processImage_def processImageTry_def buildWatermark_def
        applyWatermark_def watermarkMax_fifth getPositionCoordinates_def toLowerCase_def
        lowerChar_def faultyEnv_def demoEnv_def faultyWorld_def basename_def Let_def
        observer_defs)

theorem per_file_failures_are_isolated_witness:
  "processImage faultyEnv (demoOptions (Some ''logo.png'') None ''center'')
       ''in/gone.png'' faultyWorld
     = (Inr (), [Log (Processing ''gone.png''), Access ''in/gone.png'' (Some ''ENOENT''),
                 Err (CannotAccess ''in/gone.png'' ''ENOENT'')], faultyWorld)
   \<and> processImage faultyEnv (demoOptions (Some ''logo.png'') None ''center'')
       ''in/race.png'' faultyWorld
     = (Inr (), [Log (Processing ''race.png''), Access ''in/race.png'' None,
                 Stat ''in/race.png'' (Inl ''EIO''),
                 Err (ErrProcessing ''race.png'' ''EIO'')], faultyWorld)
   \<and> processImage faultyEnv (demoOptions (Some ''logo.png'') None ''center'')
       ''in/dir.png'' faultyWorld
     = (Inr (), [Log (Processing ''dir.png''), Access ''in/dir.png'' None,
                 Stat ''in/dir.png'' (Inr \<lparr>isFile = False, fsize = 1024\<rparr>),
                 Err (NotAFile ''in/dir.png'')], faultyWorld)
   \<and> processImage faultyEnv (demoOptions (Some ''logo.png'') None ''center'')
       ''in/empty.png'' faultyWorld
     = (Inr (), [Log (Processing ''empty.png''), Access ''in/empty.png'' None,
                 Stat ''in/empty.png'' (Inr \<lparr>isFile = True, fsize = 0\<rparr>),
                 Err (IsEmpty ''in/empty.png'')], faultyWorld)
   \<and> processImage faultyEnv (demoOptions (Some ''logo.png'') None ''center'')
       ''in/text.png'' faultyWorld
     = (Inr (), [Log (Processing ''text.png''), Access ''in/text.png'' None,
                 Stat ''in/text.png'' (Inr \<lparr>isFile = True, fsize = 1024\<rparr>),
                 Metadata ''in/text.png'' (Inl ''unsupported image format''),
                 Err (ErrReadingMetadata ''text.png'' ''unsupported image format'')],
        faultyWorld)
   \<and> processImage faultyEnv (demoOptions (Some ''logo.png'') None ''center'')
       ''in/nodims.png'' faultyWorld
     = (Inr (), [Log (Processing ''nodims.png''), Access ''in/nodims.png'' None,
                 Stat ''in/nodims.png'' (Inr \<lparr>isFile = True, fsize = 1024\<rparr>),
                 Metadata ''in/nodims.png'' (Inr \<lparr>md_width = None, md_height = None\<rparr>),
                 Err (InvalidDimensions ''nodims.png'')], faultyWorld)
   \<and> processImage faultyEnv (demoOptions (Some ''logo.png'') None ''center'')
       ''in/small.png'' faultyWorld
     = (Inr (), [Log (Processing ''small.png''), Access ''in/small.png'' None,
                 Stat ''in/small.png'' (Inr \<lparr>isFile = True, fsize = 1024\<rparr>),
                 Metadata ''in/small.png'' (Inr \<lparr>md_width = Some 100, md_height = Some 80\<rparr>),
                 Log (ImageDimensions 100 80)]
                @ [ResizeWatermark (Some ''logo.png'') (Finite 50) (Inl ''cannot resize''),
                   Err (ErrLoadingWatermark ''cannot resize'')], faultyWorld)
   \<and> buildWatermark (faultyEnv \<lparr>sharp_svg_png := \<lambda>doc w. (Inl ''no fonts'', w)\<rparr>)
       (demoOptions None (Some ''ab'') ''center'') (Finite 100) (Finite 60) faultyWorld
     = (None, [Log (TextInfo ''ab'' (length ''ab'')
                      (svg_fontSize (svgText ''ab'' (Finite 100) (Finite 60)))
                      (svg_width (svgText ''ab'' (Finite 100) (Finite 60)))
                      (svg_height (svgText ''ab'' (Finite 100) (Finite 60)))),
               SvgToPng (svgText ''ab'' (Finite 100) (Finite 60)) (Inl ''no fonts''),
               Err (ErrCreatingSvg ''no fonts''),
               Log (SvgContent (svgText ''ab'' (Finite 100) (Finite 60))),
               Err (ErrCreatingTextWatermark ''no fonts'')], faultyWorld)
   \<and> applyWatermark faultyEnv (demoOptions (Some ''logo.png'') None ''center'')
       ''in/wide.png'' ''wide.png'' ''out/wide.png'' 1000 300 [3] faultyWorld
     = ([BufferMetadata [3] (Inl ''corrupt header''),
         Err (ErrWatermarkMetadata ''corrupt header'')], faultyWorld)
   \<and> applyWatermark faultyEnv (demoOptions (Some ''logo.png'') None ''center'')
       ''in/locked.png'' ''locked.png'' ''out/locked.png'' 500 300 [2] faultyWorld
     = ([BufferMetadata [2] (Inr (101, 50)),
         CompositeToFile ''in/locked.png'' [2] 199 125 (decimal 0.5) ''out/locked.png''
           (Some ''EACCES''),
         Err (ErrApplying ''locked.png'' ''EACCES'')], faultyWorld)
   \<and> fst (main faultyEnv (demoOptions (Some ''logo.png'') None ''center'') faultyWorld) = 0
   \<and> processingLogs (traceOf (main faultyEnv
         (demoOptions (Some ''logo.png'') None ''center'') faultyWorld))
     = [''a.png'', ''gone.png'', ''dir.png'', ''empty.png'', ''race.png'', ''text.png'',
        ''nodims.png'', ''small.png'', ''wide.png'', ''locked.png'', ''z.png'']
   \<and> successLogs (traceOf (main faultyEnv
         (demoOptions (Some ''logo.png'') None ''center'') faultyWorld))
     = [''a.png'', ''z.png'']
   \<and> writes (traceOf (main faultyEnv
         (demoOptions (Some ''logo.png'') None ''center'') faultyWorld))
     = [''out/a.png'', ''out/z.png'']"
proof -
  let ?o = "demoOptions (Some ''logo.png'') None ''center''"
  note T = per_file_failures_are_isolated
    [where ?w1.0 = faultyWorld and ?w2.0 = faultyWorld and ?w3.0 = faultyWorld
       and ?w5.0 = faultyWorld]
  note rest = conjunct2 [THEN conjunct2]
  note unreadable = T [THEN rest, THEN conjunct1, rule_format]
  note stat_throws = T [THEN rest, THEN conjunct2, THEN conjunct1, rule_format]
  note not_a_file = T [THEN rest, THEN rest, THEN conjunct1, rule_format]
  note empty = T [THEN rest, THEN rest, THEN conjunct2, THEN conjunct1, rule_format]
  note undecodable = T [THEN rest, THEN rest, THEN rest, THEN conjunct1, rule_format]
  note no_dimensions =
    T [THEN rest, THEN rest, THEN rest, THEN conjunct2, THEN conjunct1, rule_format]
  note no_overlay = T [THEN rest, THEN rest, THEN rest, THEN rest, THEN conjunct1, rule_format]
  note text_fails =
    T [THEN rest, THEN rest, THEN rest, THEN rest, THEN rest, THEN conjunct1, rule_format]
  note metadata_fails =
    T [THEN rest, THEN rest, THEN rest, THEN rest, THEN rest, THEN rest, THEN conjunct1,
       rule_format]
  note composite_fails =
    T [THEN rest, THEN rest, THEN rest, THEN rest, THEN rest, THEN rest, THEN conjunct2,
       THEN conjunct1, rule_format]
  note run =
    T [THEN rest, THEN rest, THEN rest, THEN rest, THEN rest, THEN rest, THEN rest,
       THEN conjunct2, rule_format]
  note world = faultyEnv_def demoEnv_def faultyWorld_def basename_def
  have 1: "processImage faultyEnv ?o ''in/gone.png'' faultyWorld
     = (Inr (), [Log (Processing ''gone.png''), Access ''in/gone.png'' (Some ''ENOENT''),
                 Err (CannotAccess ''in/gone.png'' ''ENOENT'')], faultyWorld)"
    using unreadable [where env = faultyEnv and options = "demoOptions (Some ''logo.png'') None ''center''" and w = faultyWorld and f = "''in/gone.png''" and e = "''ENOENT''"]
    by (simp add: world)
  have 2: "processImage faultyEnv ?o ''in/race.png'' faultyWorld
     = (Inr (), [Log (Processing ''race.png''), Access ''in/race.png'' None,
                 Stat ''in/race.png'' (Inl ''EIO''),
                 Err (ErrProcessing ''race.png'' ''EIO'')], faultyWorld)"
    using stat_throws [where env = faultyEnv and options = "demoOptions (Some ''logo.png'') None ''center''" and w = faultyWorld and f = "''in/race.png''" and e = "''EIO''"]
    by (simp add: world)
  have 3: "processImage faultyEnv ?o ''in/dir.png'' faultyWorld
     = (Inr (), [Log (Processing ''dir.png''), Access ''in/dir.png'' None,
                 Stat ''in/dir.png'' (Inr \<lparr>isFile = False, fsize = 1024\<rparr>),
                 Err (NotAFile ''in/dir.png'')], faultyWorld)"
    using not_a_file [where env = faultyEnv and options = "demoOptions (Some ''logo.png'') None ''center''" and w = faultyWorld and f = "''in/dir.png''"
        and st = "\<lparr>isFile = False, fsize = 1024\<rparr>"]
    by (simp add: world)
  have 4: "processImage faultyEnv ?o ''in/empty.png'' faultyWorld
     = (Inr (), [Log (Processing ''empty.png''), Access ''in/empty.png'' None,
                 Stat ''in/empty.png'' (Inr \<lparr>isFile = True, fsize = 0\<rparr>),
                 Err (IsEmpty ''in/empty.png'')], faultyWorld)"
    using empty [where env = faultyEnv and options = "demoOptions (Some ''logo.png'') None ''center''" and w = faultyWorld and f = "''in/empty.png''"
        and st = "\<lparr>isFile = True, fsize = 0\<rparr>"]
    by (simp add: world)
  have 5: "processImage faultyEnv ?o ''in/text.png'' faultyWorld
     = (Inr (), [Log (Processing ''text.png''), Access ''in/text.png'' None,
                 Stat ''in/text.png'' (Inr \<lparr>isFile = True, fsize = 1024\<rparr>),
                 Metadata ''in/text.png'' (Inl ''unsupported image format''),
                 Err (ErrReadingMetadata ''text.png'' ''unsupported image format'')],
        faultyWorld)"
    using undecodable [where env = faultyEnv and options = "demoOptions (Some ''logo.png'') None ''center''" and w = faultyWorld and f = "''in/text.png''"
        and st = "\<lparr>isFile = True, fsize = 1024\<rparr>"
        and e = "''unsupported image format''"]
    by (simp add: world)
  have 6: "processImage faultyEnv ?o ''in/nodims.png'' faultyWorld
     = (Inr (), [Log (Processing ''nodims.png''), Access ''in/nodims.png'' None,
                 Stat ''in/nodims.png'' (Inr \<lparr>isFile = True, fsize = 1024\<rparr>),
                 Metadata ''in/nodims.png'' (Inr \<lparr>md_width = None, md_height = None\<rparr>),
                 Err (InvalidDimensions ''nodims.png'')], faultyWorld)"
    using no_dimensions [where env = faultyEnv and options = "demoOptions (Some ''logo.png'') None ''center''" and w = faultyWorld and f = "''in/nodims.png''"
        and st = "\<lparr>isFile = True, fsize = 1024\<rparr>"
        and md = "\<lparr>md_width = None, md_height = None\<rparr>"]
    by (simp add: world)
  have 7: "processImage faultyEnv ?o ''in/small.png'' faultyWorld
     = (Inr (), [Log (Processing ''small.png''), Access ''in/small.png'' None,
                 Stat ''in/small.png'' (Inr \<lparr>isFile = True, fsize = 1024\<rparr>),
                 Metadata ''in/small.png'' (Inr \<lparr>md_width = Some 100, md_height = Some 80\<rparr>),
                 Log (ImageDimensions 100 80)]
                @ [ResizeWatermark (Some ''logo.png'') (Finite 50) (Inl ''cannot resize''),
                   Err (ErrLoadingWatermark ''cannot resize'')], faultyWorld)"
    using no_overlay [where env = faultyEnv and options = "demoOptions (Some ''logo.png'') None ''center''" and w = faultyWorld and f = "''in/small.png''"
        and st = "\<lparr>isFile = True, fsize = 1024\<rparr>"
        and md = "\<lparr>md_width = Some 100, md_height = Some 80\<rparr>"
        and W = 100 and H = 80
        and tb = "[ResizeWatermark (Some ''logo.png'') (Finite 50) (Inl ''cannot resize''),
                  Err (ErrLoadingWatermark ''cannot resize'')]"]
    by (simp add: world buildWatermark_def watermarkMax_fifth)
  have 8: "buildWatermark (faultyEnv \<lparr>sharp_svg_png := \<lambda>doc w. (Inl ''no fonts'', w)\<rparr>)
       (demoOptions None (Some ''ab'') ''center'') (Finite 100) (Finite 60) faultyWorld
     = (None, [Log (TextInfo ''ab'' (length ''ab'')
                      (svg_fontSize (svgText ''ab'' (Finite 100) (Finite 60)))
                      (svg_width (svgText ''ab'' (Finite 100) (Finite 60)))
                      (svg_height (svgText ''ab'' (Finite 100) (Finite 60)))),
               SvgToPng (svgText ''ab'' (Finite 100) (Finite 60)) (Inl ''no fonts''),
               Err (ErrCreatingSvg ''no fonts''),
               Log (SvgContent (svgText ''ab'' (Finite 100) (Finite 60))),
               Err (ErrCreatingTextWatermark ''no fonts'')], faultyWorld)"
    using text_fails [where env = "faultyEnv \<lparr>sharp_svg_png := \<lambda>doc w. (Inl ''no fonts'', w)\<rparr>"
        and options = "demoOptions None (Some ''ab'') ''center''" and w = faultyWorld
        and ?txt = "''ab''" and width = "Finite 100" and height = "Finite 60"
        and e = "''no fonts''"]
    by (simp add: world)
  have 9: "applyWatermark faultyEnv ?o ''in/wide.png'' ''wide.png'' ''out/wide.png''
       1000 300 [3] faultyWorld
     = ([BufferMetadata [3] (Inl ''corrupt header''),
         Err (ErrWatermarkMetadata ''corrupt header'')], faultyWorld)"
    using metadata_fails [where env = faultyEnv and options = "demoOptions (Some ''logo.png'') None ''center''" and w = faultyWorld and f = "''in/wide.png''" and b = "[3]"
        and e = "''corrupt header''" and name = "''wide.png''" and out = "''out/wide.png''"
        and W = 1000 and H = 300]
    by (simp add: world)
  have 10: "applyWatermark faultyEnv ?o ''in/locked.png'' ''locked.png'' ''out/locked.png''
       500 300 [2] faultyWorld
     = ([BufferMetadata [2] (Inr (101, 50)),
         CompositeToFile ''in/locked.png'' [2]
           \<lfloor>fst (getPositionCoordinates (opt_position ?o)
                    (real 500) (real 300) (real 101) (real 50))\<rfloor>
           \<lfloor>snd (getPositionCoordinates (opt_position ?o)
                    (real 500) (real 300) (real 101) (real 50))\<rfloor>
           (opt_opacity ?o) ''out/locked.png'' (Some ''EACCES''),
         Err (ErrApplying ''locked.png'' ''EACCES'')], faultyWorld)"
    using composite_fails [where env = faultyEnv and options = "demoOptions (Some ''logo.png'') None ''center''" and w = faultyWorld and f = "''in/locked.png''" and b = "[2]"
        and e = "''EACCES''" and name = "''locked.png''" and out = "''out/locked.png''"
        and W = 500 and H = 300 and ow = 101 and oh = 50]
    by (simp add: world getPositionCoordinates_def toLowerCase_def lowerChar_def)
  have g: "getPositionCoordinates ''center'' 500 300 101 50 = (399 / 2, 125)"
    by (simp add: getPositionCoordinates_def toLowerCase_def lowerChar_def)
  have 11: "main faultyEnv ?o faultyWorld =
     (0, [Log (Searching (opt_input ?o)), Log (OutputDirectory (opt_output ?o)),
          Glob (opt_filter ?o) (opt_input ?o)
            (Inr [''in/a.png'', ''in/gone.png'', ''in/dir.png'', ''in/empty.png'',
                  ''in/race.png'', ''in/text.png'', ''in/nodims.png'', ''in/small.png'',
                  ''in/wide.png'', ''in/locked.png'', ''in/z.png''])]
         @ (if [''in/a.png'', ''in/gone.png'', ''in/dir.png'', ''in/empty.png'',
                ''in/race.png'', ''in/text.png'', ''in/nodims.png'', ''in/small.png'',
                ''in/wide.png'', ''in/locked.png'', ''in/z.png''] = []
            then [Log NoImagesFound]
            else [Log (Found (length
                    [''in/a.png'', ''in/gone.png'', ''in/dir.png'', ''in/empty.png'',
                     ''in/race.png'', ''in/text.png'', ''in/nodims.png'', ''in/small.png'',
                     ''in/wide.png'', ''in/locked.png'', ''in/z.png'']))]
                 @ traceOf (processImages faultyEnv ?o
                     [''in/a.png'', ''in/gone.png'', ''in/dir.png'', ''in/empty.png'',
                      ''in/race.png'', ''in/text.png'', ''in/nodims.png'', ''in/small.png'',
                      ''in/wide.png'', ''in/locked.png'', ''in/z.png''] faultyWorld)
                 @ [Log (Done (length
                    [''in/a.png'', ''in/gone.png'', ''in/dir.png'', ''in/empty.png'',
                     ''in/race.png'', ''in/text.png'', ''in/nodims.png'', ''in/small.png'',
                     ''in/wide.png'', ''in/locked.png'', ''in/z.png'']))]),
      snd (snd (processImages faultyEnv ?o
                  [''in/a.png'', ''in/gone.png'', ''in/dir.png'', ''in/empty.png'',
                   ''in/race.png'', ''in/text.png'', ''in/nodims.png'', ''in/small.png'',
                   ''in/wide.png'', ''in/locked.png'', ''in/z.png''] faultyWorld)))"
    using run [where env = faultyEnv
        and options = "demoOptions (Some ''logo.png'') None ''center''"
        and ?w0.0 = faultyWorld and w' = faultyWorld
        and images = "[''in/a.png'', ''in/gone.png'', ''in/dir.png'', ''in/empty.png'',
                  ''in/race.png'', ''in/text.png'', ''in/nodims.png'', ''in/small.png'',
                  ''in/wide.png'', ''in/locked.png'', ''in/z.png'']"]
    by (simp add: world)
  have 12: "fst (main faultyEnv ?o faultyWorld) = 0"
    "processingLogs (traceOf (main faultyEnv ?o faultyWorld))
       = [''a.png'', ''gone.png'', ''dir.png'', ''empty.png'', ''race.png'', ''text.png'',
          ''nodims.png'', ''small.png'', ''wide.png'', ''locked.png'', ''z.png'']"
    "successLogs (traceOf (main faultyEnv ?o faultyWorld)) = [''a.png'', ''z.png'']"
    "writes (traceOf (main faultyEnv ?o faultyWorld)) = [''out/a.png'', ''out/z.png'']"
    using faulty_files by (simp_all add: 11 observer_simps)
  show ?thesis
    using 1 2 3 4 5 6 7 8 9 10 12 by (simp add: g)
qed

section \<open>The overlay of a run\<close>

lemma watermarkMax_057:
  assumes "opt_scale options = decimal 0.57"
  shows "watermarkMax options 500 = Finite 285"
    and "watermarkMax options 100 = Finite (8022036836253695 / 140737488355328)"
    and "watermarkMax options 1000 = Finite 570"
  unfolding watermarkMax_def assms by (simp_all add: fl_eval)

text \<open>
  C3, amended. In a run with a watermark image and no text, the overlay is built once
  for every source image that passes validation, not once for the run: for each such
  image of width \<open>W\<close>, in order, the watermark file is decoded and resized to the width
  \<open>Math.floor(Math.max(50, W * scale))\<close>, computed on doubles.
\<close>

theorem overlay_rebuilt_for_every_image:
  assumes "\<not> truthy (opt_text options)"
  shows "overlayBuilds (traceOf (script env options w0))
     = map (\<lambda>(W, H). (opt_watermark options,
                        mathFloor (mathMax (Finite 50) (mul (ofNat W) (opt_scale options)))))
         (imageDims (traceOf (script env options w0)))"
proof -
  obtain pre images w post where
    t: "traceOf (script env options w0)
          = pre @ traceOf (processImages env options images w) @ post"
    and q: "quiet pre" "quiet post"
    using script_trace [of env options w0] by blast
  with processImages_image_mode [OF assms, of env images w] show ?thesis
    by (simp add: quiet_def observer_simps watermarkMax_def)
qed

theorem overlay_rebuilt_for_every_image_witness:
  "\<not> truthy (opt_text (demoOptions (Some ''logo.png'') None ''center''
                         \<lparr>opt_scale := decimal 0.57\<rparr>))
   \<and> imageDims (traceOf (script faultyEnv
         (demoOptions (Some ''logo.png'') None ''center'' \<lparr>opt_scale := decimal 0.57\<rparr>)
         faultyWorld))
       = [(500, 300), (100, 80), (1000, 300), (500, 300), (500, 300)]
   \<and> overlayBuilds (traceOf (script faultyEnv
         (demoOptions (Some ''logo.png'') None ''center'' \<lparr>opt_scale := decimal 0.57\<rparr>)
         faultyWorld))
       = [(Some ''logo.png'', Finite 285), (Some ''logo.png'', Finite 56),
          (Some ''logo.png'', Finite 570), (Some ''logo.png'', Finite 285),
          (Some ''logo.png'', Finite 285)]"
proof -
  let ?o = "demoOptions (Some ''logo.png'') None ''center'' \<lparr>opt_scale := decimal 0.57\<rparr>"
  have h: "\<not> truthy (opt_text ?o)"
    by simp
  have d: "imageDims (traceOf (script faultyEnv ?o faultyWorld))
       = [(500, 300), (100, 80), (1000, 300), (500, 300), (500, 300)]"
    by (simp add: script_def startup_def main_def processImage_def processImageTry_def
          buildWatermark_def applyWatermark_def watermarkMax_057
          faultyEnv_def demoEnv_def faultyWorld_def basename_def Let_def imageDims_def)
  have m: "map (\<lambda>(W, H). (Some ''logo.png'',
                  mathFloor (mathMax (Finite 50) (mul (ofNat W) (decimal 0.57)))))
             [(500::nat, 300::nat), (100, 80), (1000, 300), (500, 300), (500, 300)]
       = [(Some ''logo.png'', Finite 285), (Some ''logo.png'', Finite 56),
          (Some ''logo.png'', Finite 570), (Some ''logo.png'', Finite 285),
          (Some ''logo.png'', Finite 285)]"
    by (simp add: fl_eval)
  have "overlayBuilds (traceOf (script faultyEnv ?o faultyWorld))
       = map (\<lambda>(W, H). (Some ''logo.png'',
                  mathFloor (mathMax (Finite 50) (mul (ofNat W) (decimal 0.57)))))
             [(500::nat, 300::nat), (100, 80), (1000, 300), (500, 300), (500, 300)]"
    using overlay_rebuilt_for_every_image [OF h, of faultyEnv faultyWorld]
    unfolding d by simp
  with h d m show ?thesis
    by (simp only: simp_thms)
qed

theorem overlay_built_twice_in_one_run:
  "opt_text (demoOptions (Some ''logo.png'') None ''bottomright'') = None
   \<and> \<not> length (overlayBuilds (traceOf (script demoEnv
           (demoOptions (Some ''logo.png'') None ''bottomright'') demoWorld))) \<le> 1"
  by (simp add: run_defs overlayBuilds_def)

lemma script_text_mode:
  assumes "opt_text options = Some txt" and "txt \<noteq> []"
  shows "overlayBuilds (traceOf (script env options w0)) = []
    \<and> textBuilds (traceOf (script env options w0))
      = map (\<lambda>(W, H). svgText txt (watermarkMax options W) (watermarkMax options H))
          (imageDims (traceOf (script env options w0)))
    \<and> set (compositedBuffers (traceOf (script env options w0)))
      \<subseteq> set (renderedBuffers (traceOf (script env options w0)))"
proof -
  from assms have tr: "truthy (opt_text options)"
    by simp
  obtain pre images w post where
    t: "traceOf (script env options w0)
          = pre @ traceOf (processImages env options images w) @ post"
    and q: "quiet pre" "quiet post"
    using script_trace [of env options w0] by blast
  with processImages_text_mode [OF tr, of env images w] assms show ?thesis
    by (simp add: quiet_def observer_simps)
qed



section \<open>The box of the text watermark\<close>

text \<open>
  C2, amended. For every base image of width \<open>W\<close> and height \<open>H\<close> that passes
  validation and the configured scale \<open>s\<close>, the text overlay builder is passed the
  width \<open>max 50 (W * s)\<close> and the height \<open>max 50 (H * s)\<close>, and sizes the text in the box
  of width \<open>max 50 (W * s)\<close> and height \<open>max 50 (max 50 (H * s) * 0.6)\<close>, with the
  operations of JavaScript on doubles.
\<close>

theorem text_box_of_the_builder:
  assumes "opt_text options = Some txt" and "txt \<noteq> []"
  shows "textBuilds (traceOf (script env options w0))
      = map (\<lambda>(W, H). svgText txt
                         (mathMax (Finite 50) (mul (ofNat W) (opt_scale options)))
                         (mathMax (Finite 50) (mul (ofNat H) (opt_scale options))))
          (imageDims (traceOf (script env options w0)))
    \<and> textBox (mathMax (Finite 50) (mul (ofNat W) (opt_scale options)))
        (mathMax (Finite 50) (mul (ofNat H) (opt_scale options)))
      = (mathMax (Finite 50) (mul (ofNat W) (opt_scale options)),
         mathMax (Finite 50)
           (mul (mathMax (Finite 50) (mul (ofNat H) (opt_scale options))) (decimal 0.6)))"
  using script_text_mode [OF assms, of env w0]
  by (simp add: watermarkMax_def textBox_def watermarkWidth_def watermarkHeight_def
        mathMax_50_idem)

theorem text_box_of_the_builder_witness:
  "opt_text (demoOptions None (Some ''ab'') ''bottomright'') = Some ''ab''
   \<and> ''ab'' \<noteq> []
   \<and> textBuilds (traceOf (script demoEnv (demoOptions None (Some ''ab'') ''bottomright'')
                            demoWorld))
       = [svgText ''ab'' (Finite 100) (Finite 60), svgText ''ab'' (Finite 100) (Finite 60)]
   \<and> textBox (Finite 100) (Finite 60) = (Finite 100, Finite 50)"
proof -
  have h: "opt_text (demoOptions None (Some ''ab'') ''bottomright'') = Some ''ab''"
    "''ab'' \<noteq> []"
    by simp_all
  have d: "imageDims (traceOf (script demoEnv (demoOptions None (Some ''ab'') ''bottomright'')
                            demoWorld)) = [(500, 300), (500, 300)]"
    by (simp add: run_defs imageDims_def)
  have b: "textBox (Finite 100) (Finite 60) = (Finite 100, Finite 50)"
    by (simp add: textBox_def watermarkWidth_def watermarkHeight_def fl_eval)
  show ?thesis
    using text_box_of_the_builder [OF h, of demoEnv demoWorld 500 300] h
    unfolding d by (simp add: b fl_eval)
qed

theorem text_box_height_is_not_six_tenths_of_the_image:
  "specTextBox (ofNat 500) (ofNat 300)
       (opt_scale (demoOptions None (Some ''ab'') ''bottomright''))
     = (Finite 100, Finite 180)
   \<and> (watermarkMax (demoOptions None (Some ''ab'') ''bottomright'') 500,
       watermarkMax (demoOptions None (Some ''ab'') ''bottomright'') 300)
     \<noteq> specTextBox (ofNat 500) (ofNat 300)
          (opt_scale (demoOptions None (Some ''ab'') ''bottomright''))
   \<and> textBox (watermarkMax (demoOptions None (Some ''ab'') ''bottomright'') 500)
        (watermarkMax (demoOptions None (Some ''ab'') ''bottomright'') 300)
     \<noteq> specTextBox (ofNat 500) (ofNat 300)
          (opt_scale (demoOptions None (Some ''ab'') ''bottomright''))
   \<and> (watermarkMax (demoOptions None (Some ''ab'') ''bottomright'') 500,
       watermarkMax (demoOptions None (Some ''ab'') ''bottomright'') 300)
     = (Finite 100, Finite 60)
   \<and> textBox (watermarkMax (demoOptions None (Some ''ab'') ''bottomright'') 500)
        (watermarkMax (demoOptions None (Some ''ab'') ''bottomright'') 300)
     = (Finite 100, Finite 50)
   \<and> textBuilds (traceOf (script demoEnv (demoOptions None (Some ''ab'') ''bottomright'')
                            demoWorld))
       = [svgText ''ab'' (Finite 100) (Finite 60), svgText ''ab'' (Finite 100) (Finite 60)]"
proof -
  have b: "textBox (Finite 100) (Finite 60) = (Finite 100, Finite 50)"
    by (simp add: textBox_def watermarkWidth_def watermarkHeight_def fl_eval)
  have s: "specTextBox (ofNat 500) (ofNat 300)
       (opt_scale (demoOptions None (Some ''ab'') ''bottomright''))
     = (Finite 100, Finite 180)"
    by (simp add: specTextBox_def fl_eval)
  show ?thesis
    unfolding s by (simp add: run_defs b textBuilds_def)
qed

section \<open>The offsets of the composite\<close>

lemma no_composite:
  "compositedBuffers t = [] \<Longrightarrow> CompositeToFile f b l tp a out r \<notin> set t"
  by (induction t) (auto simp: compositedBuffers_def split: option.splits)

lemma applyWatermark_composite:
  assumes "applyWatermark env options inputFile filename outputFile W H b w0 = (t, w)"
    and "CompositeToFile f b' l tp a out r \<in> set t"
  shows "\<exists>ow oh. BufferMetadata b' (Inr (ow, oh)) \<in> set t
      \<and> l = \<lfloor>fst (getPositionCoordinates (opt_position options)
                    (real W) (real H) (real ow) (real oh))\<rfloor>
      \<and> tp = \<lfloor>snd (getPositionCoordinates (opt_position options)
                     (real W) (real H) (real ow) (real oh))\<rfloor>"
  using assms
  by (auto simp: applyWatermark_def Let_def split: prod.splits sum.splits option.splits)

lemma floor_half_difference:
  "\<lfloor>(real W - real ow) / 2\<rfloor> = (int W - int ow) div 2"
proof -
  have "(real W - real ow) / 2 = real_of_int (int W - int ow) / real_of_int 2"
    by simp
  then show ?thesis
    by (simp only: floor_divide_of_int_eq)
qed

text \<open>
  C9. Every composite call of \<open>processImage\<close> is made at the floor of the two values
  the placement function returns for the decoded dimensions \<open>W\<close>, \<open>H\<close> of the image
  and \<open>ow\<close>, \<open>oh\<close> of the overlay; for the centre placement these are
  \<open>(W - ow) div 2\<close> and \<open>(H - oh) div 2\<close>, also when the difference is odd.
\<close>

theorem composite_offsets_are_floored:
  assumes "CompositeToFile f b l tp a out r
             \<in> set (traceOf (processImage env options inputFile w0))"
  shows "\<exists>W H ow oh.
      imageDims (traceOf (processImage env options inputFile w0)) = [(W, H)]
      \<and> BufferMetadata b (Inr (ow, oh)) \<in> set (traceOf (processImage env options inputFile w0))
      \<and> l = \<lfloor>fst (getPositionCoordinates (opt_position options)
                    (real W) (real H) (real ow) (real oh))\<rfloor>
      \<and> tp = \<lfloor>snd (getPositionCoordinates (opt_position options)
                     (real W) (real H) (real ow) (real oh))\<rfloor>
      \<and> (toLowerCase (opt_position options)
            \<notin> {''topleft'', ''topright'', ''bottomleft'', ''bottomright''} \<longrightarrow>
          l = (int W - int ow) div 2 \<and> tp = (int H - int oh) div 2)"
proof -
  obtain r' t w where run: "processImageTry env options inputFile w0 = (r', t, w)"
    by (cases "processImageTry env options inputFile w0")
  note eq = processImage_eq [OF run]
  from run show ?thesis
  proof (cases rule: processImageTry_cases)
    case skipped
    with assms no_composite [of t f b l tp a out r] show ?thesis
      by (simp add: eq validationTrace_def)
  next
    case (threw e)
    with assms no_composite [of t f b l tp a out r] show ?thesis
      by (simp add: eq validationTrace_def)
  next
    case (unbuilt tv W H w3 tb)
    with assms no_composite [of tv f b l tp a out r] no_composite [of tb f b l tp a out r]
      buildWatermark_trace [OF unbuilt(5)]
    show ?thesis
      by (simp add: eq validationTrace_def)
  next
    case (applied tv W H w3 b0 tb wb ta)
    with assms no_composite [of tv f b l tp a out r] no_composite [of tb f b l tp a out r]
      buildWatermark_trace [OF applied(5)]
    have c: "CompositeToFile f b l tp a out r \<in> set ta"
      by (simp add: eq validationTrace_def)
    from applyWatermark_composite [OF applied(6) c] obtain ow oh where
      o: "BufferMetadata b (Inr (ow, oh)) \<in> set ta"
        "l = \<lfloor>fst (getPositionCoordinates (opt_position options)
                    (real W) (real H) (real ow) (real oh))\<rfloor>"
        "tp = \<lfloor>snd (getPositionCoordinates (opt_position options)
                     (real W) (real H) (real ow) (real oh))\<rfloor>"
      by blast
    have d: "imageDims (traceOf (processImage env options inputFile w0)) = [(W, H)]"
      using applied buildWatermark_trace [OF applied(5)] applyWatermark_trace [OF applied(6)]
      by (simp add: eq validationTrace_def observer_simps)
    have m: "BufferMetadata b (Inr (ow, oh))
        \<in> set (traceOf (processImage env options inputFile w0))"
      using applied o(1) by (simp add: eq)
    have "l = (int W - int ow) div 2 \<and> tp = (int H - int oh) div 2"
      if "toLowerCase (opt_position options)
            \<notin> {''topleft'', ''topright'', ''bottomleft'', ''bottomright''}"
      using that o(2,3)
      by (simp add: getPositionCoordinates_def Let_def floor_half_difference)
    with d m o(2,3) show ?thesis
      by blast
  qed
qed

theorem composite_offsets_are_floored_witness:
  "CompositeToFile ''in/a.png'' [2] 199 125 (decimal 0.5) ''out/a.png'' None
     \<in> set (traceOf (processImage demoEnv (demoOptions (Some ''logo.png'') None ''center'')
                       ''in/a.png'' demoWorld))
   \<and> imageDims (traceOf (processImage demoEnv (demoOptions (Some ''logo.png'') None ''center'')
                           ''in/a.png'' demoWorld)) = [(500, 300)]
   \<and> getPositionCoordinates ''center'' 500 300 101 50 = (399 / 2, 125)
   \<and> (\<exists>ow oh. BufferMetadata [2] (Inr (ow, oh))
          \<in> set (traceOf (processImage demoEnv (demoOptions (Some ''logo.png'') None ''center'')
                            ''in/a.png'' demoWorld))
        \<and> (199::int) = (500 - int ow) div 2 \<and> (125::int) = (300 - int oh) div 2)"
proof -
  have t: "traceOf (processImage demoEnv (demoOptions (Some ''logo.png'') None ''center'')
                      ''in/a.png'' demoWorld)
      = [Log (Processing ''a.png''), Access ''in/a.png'' None,
         Stat ''in/a.png'' (Inr \<lparr>isFile = True, fsize = 1024\<rparr>),
         Metadata ''in/a.png'' (Inr \<lparr>md_width = Some 500, md_height = Some 300\<rparr>),
         Log (ImageDimensions 500 300),
         ResizeWatermark (Some ''logo.png'') (Finite 100) (Inr [2]),
         BufferMetadata [2] (Inr (101, 50)),
         CompositeToFile ''in/a.png'' [2] 199 125 (decimal 0.5) ''out/a.png'' None,
         Log (SuccessfullyProcessed ''a.png'')]"
    by (simp add: run_defs)
  have h: "CompositeToFile ''in/a.png'' [2] 199 125 (decimal 0.5) ''out/a.png'' None
     \<in> set (traceOf (processImage demoEnv (demoOptions (Some ''logo.png'') None ''center'')
                       ''in/a.png'' demoWorld))"
    by (simp add: t)
  have p: "toLowerCase (opt_position (demoOptions (Some ''logo.png'') None ''center''))
      \<notin> {''topleft'', ''topright'', ''bottomleft'', ''bottomright''}"
    by (simp add: demoOptions_def toLowerCase_def lowerChar_def)
  have g: "getPositionCoordinates ''center'' 500 300 101 50 = (399 / 2, 125)"
    by (simp add: getPositionCoordinates_def toLowerCase_def lowerChar_def)
  from composite_offsets_are_floored [OF h] p obtain W H ow oh where
    "imageDims (traceOf (processImage demoEnv (demoOptions (Some ''logo.png'') None ''center'')
                           ''in/a.png'' demoWorld)) = [(W, H)]"
    "BufferMetadata [2] (Inr (ow, oh))
       \<in> set (traceOf (processImage demoEnv (demoOptions (Some ''logo.png'') None ''center'')
                            ''in/a.png'' demoWorld))"
    "(199::int) = (int W - int ow) div 2" "(125::int) = (int H - int oh) div 2"
    by blast
  with h g show ?thesis
    by (auto simp: t imageDims_def)
qed

end
